theory Spec2Isabelle
  imports Main "HOL-Library.Sublist"
begin

section \<open>JavaScript string operations used by the server\<close>

text \<open>
  Strings are lists of characters.  \<^verbatim>\<open>s.startsWith(p)\<close> is the prefix test,
  \<^verbatim>\<open>s.includes(p)\<close> asks whether \<open>p\<close> occurs somewhere in \<open>s\<close>, and
  \<^verbatim>\<open>s.replace(p, r)\<close> with a string pattern replaces the first occurrence of
  \<open>p\<close> only (none of the replacement strings of \<^verbatim>\<open>server.js\<close> contains a
  dollar sign, so the replacement is literal).
\<close>

definition startsWith :: "string \<Rightarrow> string \<Rightarrow> bool" where
  "startsWith s p = prefix p s"

fun includes_str :: "string \<Rightarrow> string \<Rightarrow> bool" where
  "includes_str [] p = (p = [])"
| "includes_str (c # cs) p = (prefix p (c # cs) \<or> includes_str cs p)"

fun replace_first :: "string \<Rightarrow> string \<Rightarrow> string \<Rightarrow> string" where
  "replace_first [] p r = (if p = [] then r else [])"
| "replace_first (c # cs) p r =
     (if prefix p (c # cs) then r @ drop (length p) (c # cs)
      else c # replace_first cs p r)"

text \<open>
  \<^verbatim>\<open>s.replace(/\.git$/, '.git')\<close>: the regular expression matches the four
  characters \<^verbatim>\<open>.git\<close> at the very end of the input (no multiline flag); the match
  is replaced by the string \<^verbatim>\<open>.git\<close>.
\<close>

definition replace_git_suffix :: "string \<Rightarrow> string" where
  "replace_git_suffix s =
     (if suffix ''.git'' s then take (length s - 4) s @ ''.git'' else s)"

subsection \<open>convertToSshUrl (server.js, lines 39-46)\<close>

definition convertToSshUrl :: "string \<Rightarrow> string" where
  "convertToSshUrl httpsUrl =
     (if startsWith httpsUrl ''https://github.com/''
      then replace_git_suffix (replace_first httpsUrl ''https://github.com/'' ''git@github.com:'')
      else httpsUrl)"

section \<open>The collaborators: file system, git and npm\<close>

text \<open>
  The handlers of \<^verbatim>\<open>server.js\<close> talk to three collaborators: the file system
  (\<^verbatim>\<open>fs.promises\<close>), git (through \<^verbatim>\<open>simple-git\<close>) and npm (through
  \<^verbatim>\<open>execa\<close>).  They are modelled by a world that holds
  \<^item> the file system: a partial map from paths to nodes; a file carries its permission
    bits, a directory carries its git metadata if it is a working copy: the list of
    remotes (each a name and a fetch URL, as \<^verbatim>\<open>getRemotes(true)\<close> reports them)
    and the index, which is the list of the paths with staged changes;
  \<^item> the trace of the calls made so far, each with its outcome;
  \<^item> the environment's choices, which the handlers cannot see: \<open>fault\<close> may make the
    \<open>n\<close>-th call fail with any message (network down, permission denied, branch
    missing, no author identity, ...), \<open>commit_of\<close> is the identifier git reports for a
    commit, \<open>current_of\<close> the name \<^verbatim>\<open>git branch --show-current\<close> reports,
    \<open>tree_of\<close> what a command that writes the working tree (a checkout, a pull, a clone,
    an installation) makes of the entries below the directory, and \<open>pending\<close> the
    changed paths that \<^verbatim>\<open>git add .\<close> finds there.
  Every call is a state transformer that returns either the message of the error it
  throws (\<open>Inl\<close>) or its value (\<open>Inr\<close>).  The \<^verbatim>\<open>console\<close> calls are left out, and
  so is the construction of the \<^verbatim>\<open>simpleGit\<close> object, which the handlers build only for
  a directory that \<^verbatim>\<open>stat\<close> has just found.
\<close>

type_synonym remotes = "(string \<times> string) list"

type_synonym metadata = "remotes \<times> string list"

datatype node = File nat | Dir "metadata option"

type_synonym fsys = "string \<Rightarrow> node option"

datatype call =
    FsStat string
  | FsMkdir string
  | FsRm string
  | FsCopyFile string string
  | FsChmod string nat
  | GitCheckIsRepo string
  | GitInit string
  | GitAddRemote string string string
  | GitGetRemotes string
  | GitRemoveRemote string string
  | GitCheckout string string
  | GitCheckoutNew string string
  | GitAdd string string
  | GitCommit string string
  | GitBranchShowCurrent string
  | GitPush string string string bool
  | GitPull string string string
  | GitClone string string string
  | NpmInstall string

record world =
  files :: fsys
  trace :: "(call \<times> string option) list"
  fault :: "nat \<Rightarrow> call \<Rightarrow> string option"
  commit_of :: "nat \<Rightarrow> string"
  current_of :: "nat \<Rightarrow> string"
  tree_of :: "nat \<Rightarrow> fsys \<Rightarrow> fsys"
  pending :: "nat \<Rightarrow> string list"

type_synonym 'a io = "world \<Rightarrow> (string + 'a) \<times> world"

definition ret :: "'a \<Rightarrow> 'a io" where
  "ret a w = (Inr a, w)"

definition bnd :: "'a io \<Rightarrow> ('a \<Rightarrow> 'b io) \<Rightarrow> 'b io" where
  "bnd m k w = (case m w of (Inl e, w1) \<Rightarrow> (Inl e, w1) | (Inr a, w1) \<Rightarrow> k a w1)"

text \<open>
  One call: the environment may fail it; otherwise its meaning \<open>sem\<close> on the current
  state decides.  A failed call leaves the file system as it was.
\<close>

definition invoke :: "call \<Rightarrow> (world \<Rightarrow> string + 'a \<times> fsys) \<Rightarrow> 'a io" where
  "invoke c sem w =
     (case fault w (length (trace w)) c of
        Some m \<Rightarrow> (Inl m, w\<lparr>trace := trace w @ [(c, Some m)]\<rparr>)
      | None \<Rightarrow>
          (case sem w of
             Inl m \<Rightarrow> (Inl m, w\<lparr>trace := trace w @ [(c, Some m)]\<rparr>)
           | Inr (a, fs) \<Rightarrow> (Inr a, w\<lparr>files := fs, trace := trace w @
               [(c, None)]\<rparr>)))"

subsection \<open>File system\<close>

definition at_or_below :: "string \<Rightarrow> string \<Rightarrow> bool" where
  "at_or_below p q = (q = p \<or> prefix (p @ ''/'') q)"

definition fs_stat :: "string \<Rightarrow> node io" where
  "fs_stat p = invoke (FsStat p) (\<lambda>w.
     case files w p of
       None \<Rightarrow> Inl ''ENOENT: no such file or directory''
     | Some n \<Rightarrow> Inr (n, files w))"

text \<open>\<^verbatim>\<open>mkdir(p, { recursive: true })\<close>: no error when the directory exists.\<close>

definition fs_mkdir :: "string \<Rightarrow> unit io" where
  "fs_mkdir p = invoke (FsMkdir p) (\<lambda>w.
     case files w p of
       None \<Rightarrow> Inr ((), (files w)(p \<mapsto> Dir None))
     | Some (Dir m) \<Rightarrow> Inr ((), files w)
     | Some (File m) \<Rightarrow> Inl ''EEXIST: file already exists'')"

text \<open>\<^verbatim>\<open>rm(p, { recursive: true, force: true })\<close>: removes \<open>p\<close> and all below it;
  a missing path is no error.\<close>

definition fs_rm :: "string \<Rightarrow> unit io" where
  "fs_rm p = invoke (FsRm p) (\<lambda>w.
     Inr ((), \<lambda>q. if at_or_below p q then None else files w q))"

definition fs_copyFile :: "string \<Rightarrow> string \<Rightarrow> unit io" where
  "fs_copyFile src dest = invoke (FsCopyFile src dest) (\<lambda>w.
     case files w src of
       None \<Rightarrow> Inl ''ENOENT: no such file or directory''
     | Some (Dir m) \<Rightarrow> Inl ''EISDIR: illegal operation on a directory''
     | Some (File m) \<Rightarrow>
         (case files w dest of
            Some (Dir m') \<Rightarrow> Inl ''EISDIR: illegal operation on a directory''
          | _ \<Rightarrow> Inr ((), (files w)(dest \<mapsto> File m))))"

definition fs_chmod :: "string \<Rightarrow> nat \<Rightarrow> unit io" where
  "fs_chmod p mode = invoke (FsChmod p mode) (\<lambda>w.
     case files w p of
       None \<Rightarrow> Inl ''ENOENT: no such file or directory''
     | Some (File m) \<Rightarrow> Inr ((), (files w)(p \<mapsto> File mode))
     | Some (Dir m) \<Rightarrow> Inr ((), files w))"

subsection \<open>git, on the working copy at a base directory\<close>

text \<open>
  The remotes follow git: \<^verbatim>\<open>git init\<close> gives a directory empty metadata and leaves
  existing metadata alone, \<^verbatim>\<open>git remote add\<close> refuses a name that exists,
  \<^verbatim>\<open>git remote remove\<close> refuses a name that does not, and all of them need a
  working copy.  These commands change the remotes only: neither the index nor any other
  entry of the file system.
\<close>

definition repo_at :: "world \<Rightarrow> string \<Rightarrow> remotes option" where
  "repo_at w d = (case files w d of Some (Dir (Some md)) \<Rightarrow> Some (fst md) | _ \<Rightarrow> None)"

definition staged_at :: "world \<Rightarrow> string \<Rightarrow> string list" where
  "staged_at w d = (case files w d of Some (Dir (Some md)) \<Rightarrow> snd md | _ \<Rightarrow> [])"

definition has_remote :: "string \<Rightarrow> remotes \<Rightarrow> bool" where
  "has_remote n rs = list_ex (\<lambda>r. fst r = n) rs"

definition not_a_repository :: string where
  "not_a_repository = ''fatal: not a git repository (or any of the parent directories): .git''"

definition git_checkIsRepo :: "string \<Rightarrow> bool io" where
  "git_checkIsRepo d = invoke (GitCheckIsRepo d) (\<lambda>w.
     Inr (repo_at w d \<noteq> None, files w))"

definition git_init :: "string \<Rightarrow> unit io" where
  "git_init d = invoke (GitInit d) (\<lambda>w.
     case files w d of
       Some (Dir None) \<Rightarrow> Inr ((), (files w)(d \<mapsto> Dir (Some ([], []))))
     | Some (Dir (Some md)) \<Rightarrow> Inr ((), files w)
     | _ \<Rightarrow> Inl ''fatal: cannot change to the directory'')"

definition git_addRemote :: "string \<Rightarrow> string \<Rightarrow> string \<Rightarrow> unit io" where
  "git_addRemote d n url = invoke (GitAddRemote d n url) (\<lambda>w.
     case repo_at w d of
       None \<Rightarrow> Inl not_a_repository
     | Some rs \<Rightarrow>
         if has_remote n rs then Inl (''error: remote '' @ n @ '' already exists.'')
         else Inr ((), (files w)(d \<mapsto> Dir (Some (rs @ [(n, url)], staged_at w d)))))"

definition git_getRemotes :: "string \<Rightarrow> remotes io" where
  "git_getRemotes d = invoke (GitGetRemotes d) (\<lambda>w.
     case repo_at w d of
       None \<Rightarrow> Inl not_a_repository
     | Some rs \<Rightarrow> Inr (rs, files w))"

definition git_removeRemote :: "string \<Rightarrow> string \<Rightarrow> unit io" where
  "git_removeRemote d n = invoke (GitRemoveRemote d n) (\<lambda>w.
     case repo_at w d of
       None \<Rightarrow> Inl not_a_repository
     | Some rs \<Rightarrow>
         if has_remote n rs
         then Inr ((), (files w)(d \<mapsto>
                Dir (Some (filter (\<lambda>r. fst r \<noteq> n) rs, staged_at w d))))
         else Inl (''error: No such remote: '' @ n))"

text \<open>
  Branches, the history and the remote repository are not part of the state: whether a
  checkout, a commit, a push or a pull succeeds is the environment's choice
  (\<open>fault\<close>), beyond the need for a working copy (and, to push or pull, for the remote).
  What the commands do to the files is part of the state:
  \<^item> \<^verbatim>\<open>git checkout\<close> of a branch, \<^verbatim>\<open>git pull\<close> and \<^verbatim>\<open>git clone\<close> write the
    working tree: the entries below the directory become what the environment's
    \<open>tree_of\<close> makes of them (files are added, replaced or removed), while the directory
    itself and its metadata stay; \<^verbatim>\<open>npm install\<close> writes below its directory in the
    same way;
  \<^item> \<^verbatim>\<open>git checkout -b\<close> starts a branch at the current position and leaves the
    working tree as it is;
  \<^item> \<^verbatim>\<open>git add .\<close> puts the changed paths it finds (\<open>pending\<close>) into the index;
  \<^item> \<^verbatim>\<open>git commit\<close> records the index and empties it.  With nothing staged git
    records nothing, and the \<^verbatim>\<open>commit\<close> of \<^verbatim>\<open>simple-git\<close> resolves all the
    same, with a summary whose commit identifier is the empty string: it does not throw.
\<close>

definition rewrite_below :: "string \<Rightarrow> (fsys \<Rightarrow> fsys) \<Rightarrow> fsys \<Rightarrow> fsys" where
  "rewrite_below d f fs = (\<lambda>q. if prefix (d @ ''/'') q then f fs q else fs q)"

definition written_tree :: "string \<Rightarrow> world \<Rightarrow> fsys \<Rightarrow> fsys" where
  "written_tree d w fs = rewrite_below d (tree_of w (length (trace w))) fs"

definition in_repo :: "string \<Rightarrow> 'a \<Rightarrow> world \<Rightarrow> string + 'a \<times> fsys" where
  "in_repo d a w =
     (case repo_at w d of None \<Rightarrow> Inl not_a_repository | Some rs \<Rightarrow> Inr (a, files w))"

definition with_remote :: "string \<Rightarrow> string \<Rightarrow> world \<Rightarrow> string + unit \<times> fsys" where
  "with_remote d n w =
     (case repo_at w d of
        None \<Rightarrow> Inl not_a_repository
      | Some rs \<Rightarrow>
          if has_remote n rs then Inr ((), files w)
          else Inl (''fatal: '' @ n @ '' does not appear to be a git repository''))"

definition git_checkout :: "string \<Rightarrow> string \<Rightarrow> unit io" where
  "git_checkout d b = invoke (GitCheckout d b) (\<lambda>w.
     case repo_at w d of
       None \<Rightarrow> Inl not_a_repository
     | Some rs \<Rightarrow> Inr ((), written_tree d w (files w)))"

definition git_checkoutNew :: "string \<Rightarrow> string \<Rightarrow> unit io" where
  "git_checkoutNew d b = invoke (GitCheckoutNew d b) (in_repo d ())"

definition git_add :: "string \<Rightarrow> string \<Rightarrow> unit io" where
  "git_add d pathspec = invoke (GitAdd d pathspec) (\<lambda>w.
     case repo_at w d of
       None \<Rightarrow> Inl not_a_repository
     | Some rs \<Rightarrow>
         Inr ((), (files w)(d \<mapsto>
                Dir (Some (rs, staged_at w d @ pending w (length (trace w)))))))"

definition git_commit :: "string \<Rightarrow> string \<Rightarrow> string io" where
  "git_commit d msg = invoke (GitCommit d msg) (\<lambda>w.
     case repo_at w d of
       None \<Rightarrow> Inl not_a_repository
     | Some rs \<Rightarrow>
         if staged_at w d = [] then Inr ([], files w)
         else Inr (commit_of w (length (trace w)), (files w)(d \<mapsto> Dir (Some (rs, [])))))"

definition git_branch_show_current :: "string \<Rightarrow> string io" where
  "git_branch_show_current d = invoke (GitBranchShowCurrent d) (\<lambda>w.
     in_repo d (current_of w (length (trace w))) w)"

definition git_push :: "string \<Rightarrow> string \<Rightarrow> string \<Rightarrow> bool \<Rightarrow> unit io" where
  "git_push d n b set_upstream = invoke (GitPush d n b set_upstream) (with_remote d n)"

definition git_pull :: "string \<Rightarrow> string \<Rightarrow> string \<Rightarrow> unit io" where
  "git_pull d n b = invoke (GitPull d n b) (\<lambda>w.
     case with_remote d n w of
       Inl m \<Rightarrow> Inl m
     | Inr (u, fs) \<Rightarrow> Inr ((), written_tree d w fs))"

text \<open>\<^verbatim>\<open>git clone url path --branch b\<close>: refused when the destination exists (git
  accepts an empty directory; emptiness is not tracked here).\<close>

definition git_clone :: "string \<Rightarrow> string \<Rightarrow> string \<Rightarrow> unit io" where
  "git_clone url path b = invoke (GitClone url path b) (\<lambda>w.
     case files w path of
       Some n \<Rightarrow> Inl ''fatal: destination path already exists and is not an empty directory.''
     | None \<Rightarrow>
         Inr ((), written_tree path w ((files w)(path \<mapsto> Dir (Some ([(''origin'', url)], []))))))"

definition npm_install :: "string \<Rightarrow> unit io" where
  "npm_install cwd = invoke (NpmInstall cwd) (\<lambda>w.
     case files w cwd of
       Some (Dir m) \<Rightarrow> Inr ((), written_tree cwd w (files w))
     | _ \<Rightarrow> Inl ''ENOENT: the working directory does not exist'')"

section \<open>Requests, configuration and responses\<close>

text \<open>
  The fields a handler reads from \<^verbatim>\<open>req.body\<close> are strings or absent; the constants
  of the module come from the process environment.  \<^verbatim>\<open>path.join\<close>,
  \<^verbatim>\<open>path.dirname\<close> and \<^verbatim>\<open>path.basename\<close> are library functions and are
  parameters here.
\<close>

record body =
  sourceLocalPath :: "string option"
  repoName :: "string option"
  branchName :: "string option"
  commitMessage :: "string option"
  githubRepoUrl :: "string option"
  localDownloadPath :: "string option"

record config =
  GITHUB_PAT :: "string option"
  YOUR_GITHUB_USERNAME :: "string option"
  RUN_VITE_PROJECT_SCRIPT_TEMPLATE :: string
  path_join :: "string \<Rightarrow> string \<Rightarrow> string"
  path_dirname :: "string \<Rightarrow> string"
  path_basename :: "string \<Rightarrow> string"

datatype response = Response (status: nat) (json: "(string \<times> string) list")

text \<open>JavaScript truthiness of a string or \<^verbatim>\<open>undefined\<close>, \<^verbatim>\<open>x || 'main'\<close>, and the
  text a template literal shows for the value.\<close>

definition truthy :: "string option \<Rightarrow> bool" where
  "truthy v = (case v of None \<Rightarrow> False | Some s \<Rightarrow> s \<noteq> [])"

definition or_default :: "string option \<Rightarrow> string \<Rightarrow> string" where
  "or_default v d = (case v of None \<Rightarrow> d | Some s \<Rightarrow> if s = [] then d else s)"

definition str :: "string option \<Rightarrow> string" where
  "str v = (case v of None \<Rightarrow> ''undefined'' | Some s \<Rightarrow> s)"

definition dq :: string where
  "dq = [CHR 0x22]"

definition stat_ok :: "string + node \<Rightarrow> bool" where
  "stat_ok r = (case r of Inl e \<Rightarrow> False | Inr n \<Rightarrow> True)"

definition stat_isDirectory :: "string + node \<Rightarrow> bool" where
  "stat_isDirectory r = (case r of Inr (Dir m) \<Rightarrow> True | _ \<Rightarrow> False)"

section \<open>POST /api/upload-vite-project (server.js, lines 173-284)\<close>

text \<open>Lines 176 and 290: \<^verbatim>\<open>branchName || 'main'\<close>.  Line 211: the remote URL is
  built from the configured account and the repository name.\<close>

definition actualBranchName_of :: "body \<Rightarrow> string" where
  "actualBranchName_of req = or_default (branchName req) ''main''"

definition remoteUrl_of :: "string \<Rightarrow> string \<Rightarrow> string" where
  "remoteUrl_of user repo = ''git@github.com:'' @ user @ ''/'' @ repo @ ''.git''"

text \<open>Lines 191-198: the source path must be a directory that holds
  \<^verbatim>\<open>package.json\<close>; otherwise the handler returns 404 or 400 from inside the
  \<^verbatim>\<open>try\<close> block.  A failed \<^verbatim>\<open>stat\<close> is caught and read as "absent".\<close>

definition validate_source :: "config \<Rightarrow> string \<Rightarrow> world \<Rightarrow> response option \<times> world" where
  "validate_source cfg src w =
     (let (sourcePathStat, w1) = fs_stat src w in
      if \<not> stat_isDirectory sourcePathStat
      then (Some (Response 404 [(''message'',
              ''Source local path '' @ dq @ src @ dq @ '' not found or is not a directory.'')]), w1)
      else
        let (manifest, w2) = fs_stat (path_join cfg src ''package.json'') w1 in
        if \<not> stat_ok manifest
        then (Some (Response 400 [(''message'',
                dq @ src @ dq @ '' does not appear to be a Node.js project (package.json not found).'')]), w2)
        else (None, w2))"

text \<open>Lines 199-205: copy the helper script when \<^verbatim>\<open>stat\<close> does not find it.\<close>

definition ensure_run_script :: "config \<Rightarrow> string \<Rightarrow> unit io" where
  "ensure_run_script cfg src w =
     (let runScriptDestPath = path_join cfg src ''run-vite-project.sh'';
          (st, w1) = fs_stat runScriptDestPath w in
      if \<not> stat_ok st
      then bnd (fs_copyFile (RUN_VITE_PROJECT_SCRIPT_TEMPLATE cfg) runScriptDestPath)
             (\<lambda>_. fs_chmod runScriptDestPath 493) w1
      else (Inr (), w1))"

text \<open>Lines 214-236: make \<^verbatim>\<open>origin\<close> point at the remote URL.  A failing
  \<^verbatim>\<open>checkIsRepo\<close> is caught and read as "not a repository".\<close>

definition reconcile_remote :: "string \<Rightarrow> string \<Rightarrow> unit io" where
  "reconcile_remote d remoteUrl w =
     (let (r, w1) = git_checkIsRepo d w;
          isRepo = (case r of Inl e \<Rightarrow> False | Inr b \<Rightarrow> b) in
      if \<not> isRepo
      then bnd (git_init d) (\<lambda>_. git_addRemote d ''origin'' remoteUrl) w1
      else bnd (git_getRemotes d) (\<lambda>remotes.
             if \<not> list_ex (\<lambda>r. fst r = ''origin'') remotes
             then git_addRemote d ''origin'' remoteUrl
             else
               (case find (\<lambda>r. fst r = ''origin'') remotes of
                  Some currentOrigin \<Rightarrow>
                    if snd currentOrigin \<noteq> remoteUrl
                    then bnd (git_removeRemote d ''origin'')
                           (\<lambda>_. git_addRemote d ''origin'' remoteUrl)
                    else ret ()
                | None \<Rightarrow> ret ())) w1)"

text \<open>Lines 239-250: switch to the branch; when the error message of the failed switch
  contains \<^verbatim>\<open>pathspec\<close> or \<^verbatim>\<open>not found\<close>, create the branch with
  \<^verbatim>\<open>git checkout -b\<close>; any other error is thrown again.\<close>

definition branch_not_found :: "string \<Rightarrow> bool" where
  "branch_not_found message = (includes_str message ''pathspec'' \<or> includes_str message ''not found'')"

definition checkout_branch :: "string \<Rightarrow> string \<Rightarrow> unit io" where
  "checkout_branch d actualBranchName w =
     (case git_checkout d actualBranchName w of
        (Inr u, w1) \<Rightarrow> (Inr (), w1)
      | (Inl message, w1) \<Rightarrow>
          if branch_not_found message then git_checkoutNew d actualBranchName w1
          else (Inl message, w1))"

text \<open>Lines 253-257: stage everything and commit; the value is the commit identifier.\<close>

definition stage_and_commit :: "string \<Rightarrow> string \<Rightarrow> string io" where
  "stage_and_commit d message = bnd (git_add d ''.'') (\<lambda>_. git_commit d message)"

text \<open>Lines 259-273: push, with \<^verbatim>\<open>--set-upstream\<close> first when git reports the
  requested branch as the current one.\<close>

definition push_branch :: "string \<Rightarrow> string \<Rightarrow> unit io" where
  "push_branch d actualBranchName =
     bnd (git_branch_show_current d) (\<lambda>current.
       if current = actualBranchName
       then (\<lambda>w. case git_push d ''origin'' actualBranchName True w of
                    (Inr u, w1) \<Rightarrow> (Inr (), w1)
                  | (Inl pushError, w1) \<Rightarrow> git_push d ''origin'' actualBranchName False w1)
       else git_push d ''origin'' actualBranchName False)"

definition upload_prepare :: "config \<Rightarrow> string \<Rightarrow> string \<Rightarrow> string \<Rightarrow> unit io" where
  "upload_prepare cfg src remoteUrl actualBranchName =
     bnd (ensure_run_script cfg src) (\<lambda>_.
     bnd (reconcile_remote src remoteUrl) (\<lambda>_.
     checkout_branch src actualBranchName))"

definition upload_ok :: "config \<Rightarrow> string \<Rightarrow> string \<Rightarrow> string \<Rightarrow> string \<Rightarrow> string \<Rightarrow> response" where
  "upload_ok cfg user src repo actualBranchName commit =
     Response 200
       [(''message'', ''Successfully uploaded Vite project from '' @ dq @ path_basename cfg src @ dq
           @ '' to '' @ dq @ repo @ ''/'' @ actualBranchName @ dq @ ''. Commit: '' @ commit),
        (''repoUrl'', ''https://github.com/'' @ user @ ''/'' @ repo @ ''/tree/'' @ actualBranchName)]"

definition upload_sync :: "config \<Rightarrow> string \<Rightarrow> string \<Rightarrow> string \<Rightarrow> string \<Rightarrow> string \<Rightarrow> response io" where
  "upload_sync cfg user src repo actualBranchName message =
     bnd (stage_and_commit src message) (\<lambda>commit.
     bnd (push_branch src actualBranchName) (\<lambda>_.
     ret (upload_ok cfg user src repo actualBranchName commit)))"

text \<open>The body of the \<^verbatim>\<open>try\<close> block: \<open>Inl\<close> is the message of a thrown error,
  \<open>Inr\<close> the response sent.\<close>

definition upload_try :: "config \<Rightarrow> string \<Rightarrow> string \<Rightarrow> string \<Rightarrow> string \<Rightarrow> string \<Rightarrow> response io" where
  "upload_try cfg user src repo actualBranchName message w =
     (case validate_source cfg src w of
        (Some early, w1) \<Rightarrow> (Inr early, w1)
      | (None, w1) \<Rightarrow>
          bnd (upload_prepare cfg src (remoteUrl_of user repo) actualBranchName)
            (\<lambda>_. upload_sync cfg user src repo actualBranchName message) w1)"

text \<open>Lines 280-283: a thrown error becomes the response 500 that carries its message.\<close>

definition upload_catch :: "(string + response) \<times> world \<Rightarrow> response \<times> world" where
  "upload_catch rw =
     (case rw of
        (Inr sent, w1) \<Rightarrow> (sent, w1)
      | (Inl message, w1) \<Rightarrow>
          (Response 500 [(''message'', ''Failed to upload Vite project: '' @ message)], w1))"

definition upload_vite_project :: "config \<Rightarrow> body \<Rightarrow> world \<Rightarrow> response \<times> world" where
  "upload_vite_project cfg req w =
     (if \<not> truthy (sourceLocalPath req) \<or> \<not> truthy (repoName req) \<or> \<not> truthy (commitMessage req)
      then (Response 400 [(''message'',
              ''Local project path, target repository name, and commit message are required for upload.'')], w)
      else if \<not> truthy (GITHUB_PAT cfg)
      then (Response 500 [(''message'',
              ''GitHub Personal Access Token (GITHUB_PAT) is not configured on the server.'')], w)
      else if \<not> truthy (YOUR_GITHUB_USERNAME cfg)
      then (Response 500 [(''message'',
              ''GITHUB_USERNAME environment variable is not configured on the server. Needed for constructing repo URL.'')], w)
      else
        upload_catch
          (upload_try cfg (str (YOUR_GITHUB_USERNAME cfg)) (str (sourceLocalPath req))
             (str (repoName req)) (actualBranchName_of req) (str (commitMessage req)) w))"

section \<open>POST /api/download-and-prepare (server.js, lines 288-375)\<close>

text \<open>Lines 314-322, the body of the inner \<^verbatim>\<open>try\<close>: repoint an \<^verbatim>\<open>origin\<close>
  whose fetch URL differs, then pull.\<close>

definition update_existing :: "string \<Rightarrow> string \<Rightarrow> string \<Rightarrow> unit io" where
  "update_existing d sshRepoUrl actualBranchName =
     bnd (git_getRemotes d) (\<lambda>remotes.
     bnd (case find (\<lambda>r. fst r = ''origin'') remotes of
            Some currentOrigin \<Rightarrow>
              if snd currentOrigin \<noteq> sshRepoUrl
              then bnd (git_removeRemote d ''origin'') (\<lambda>_. git_addRemote d ''origin'' sshRepoUrl)
              else ret ()
          | None \<Rightarrow> ret ())
       (\<lambda>_. git_pull d ''origin'' actualBranchName))"

text \<open>Lines 313-328: any error of the update is caught and the directory is removed.\<close>

definition pull_or_remove :: "string \<Rightarrow> string \<Rightarrow> string \<Rightarrow> unit io" where
  "pull_or_remove d sshRepoUrl actualBranchName w =
     (case update_existing d sshRepoUrl actualBranchName w of
        (Inr u, w1) \<Rightarrow> (Inr (), w1)
      | (Inl pullError, w1) \<Rightarrow> fs_rm d w1)"

text \<open>Lines 309-337.  The condition of line 332 looks at the path again only when the
  first look found a directory.\<close>

definition acquire_working_copy :: "string \<Rightarrow> string \<Rightarrow> string \<Rightarrow> unit io" where
  "acquire_working_copy sshRepoUrl localPath actualBranchName w =
     (let (st, w1) = fs_stat localPath w;
          targetPathExists = stat_isDirectory st in
      bnd (if targetPathExists then pull_or_remove localPath sshRepoUrl actualBranchName else ret ())
        (\<lambda>_ w2.
           let (needsClone, w3) =
                 (if \<not> targetPathExists then (True, w2)
                  else (let (st2, w3) = fs_stat localPath w2 in (\<not> stat_isDirectory st2, w3))) in
           if needsClone then git_clone sshRepoUrl localPath actualBranchName w3
           else (Inr (), w3)) w1)"

text \<open>Lines 346-354.\<close>

definition ensure_run_script_executable :: "config \<Rightarrow> string \<Rightarrow> unit io" where
  "ensure_run_script_executable cfg localPath w =
     (let runScriptPathInProject = path_join cfg localPath ''run-vite-project.sh'';
          (st, w1) = fs_stat runScriptPathInProject w in
      bnd (if \<not> stat_ok st
           then fs_copyFile (RUN_VITE_PROJECT_SCRIPT_TEMPLATE cfg) runScriptPathInProject
           else ret ())
        (\<lambda>_. fs_chmod runScriptPathInProject 493) w1)"

definition download_try :: "config \<Rightarrow> string \<Rightarrow> string \<Rightarrow> string \<Rightarrow> response io" where
  "download_try cfg url localPath actualBranchName =
     bnd (fs_mkdir (path_dirname cfg localPath)) (\<lambda>_.
     bnd (acquire_working_copy (convertToSshUrl url) localPath actualBranchName) (\<lambda>_.
     bnd (npm_install localPath) (\<lambda>_.
     bnd (ensure_run_script_executable cfg localPath) (\<lambda>_.
     ret (Response 200 [(''message'', ''Project cloned and prepared successfully!''),
                        (''path'', localPath)])))))"

text \<open>Lines 365-372: remove the path when \<^verbatim>\<open>stat\<close> finds it; an error of the removal
  is caught and logged.\<close>

definition cleanup :: "string \<Rightarrow> world \<Rightarrow> world" where
  "cleanup localPath w =
     (let (st, w1) = fs_stat localPath w in
      if stat_ok st then snd (fs_rm localPath w1) else w1)"

text \<open>Lines 362-374: the \<^verbatim>\<open>catch\<close> block cleans up, then answers 500 with the
  message of the error it caught.\<close>

definition download_catch :: "string \<Rightarrow> (string + response) \<times> world \<Rightarrow> response \<times> world" where
  "download_catch localPath rw =
     (case rw of
        (Inr sent, w1) \<Rightarrow> (sent, w1)
      | (Inl message, w1) \<Rightarrow>
          (Response 500 [(''message'', ''Failed to download and prepare project: '' @ message)],
           cleanup localPath w1))"

definition download_and_prepare :: "config \<Rightarrow> body \<Rightarrow> world \<Rightarrow> response \<times> world" where
  "download_and_prepare cfg req w =
     (if \<not> truthy (githubRepoUrl req) \<or> \<not> truthy (localDownloadPath req)
      then (Response 400 [(''message'',
              ''GitHub repository URL and local download path are required.'')], w)
      else
        download_catch (str (localDownloadPath req))
          (download_try cfg (str (githubRepoUrl req)) (str (localDownloadPath req))
             (actualBranchName_of req) w))"

section \<open>Observing a run\<close>

text \<open>The outcome of a call as the trace records it, a run that continues another, the
  remotes of a working copy, and the requests that pass the checks made before the
  \<^verbatim>\<open>try\<close> block (lines 180-188 and 294-296).\<close>

definition outcome :: "string + 'a \<Rightarrow> string option" where
  "outcome r = (case r of Inl m \<Rightarrow> Some m | Inr a \<Rightarrow> None)"

definition extends :: "world \<Rightarrow> world \<Rightarrow> bool" where
  "extends w w' = prefix (trace w) (trace w')"

fun is_push :: "call \<Rightarrow> bool" where
  "is_push (GitPush d n b u) = True"
| "is_push c = False"

definition remotes_at :: "world \<Rightarrow> string \<Rightarrow> remotes" where
  "remotes_at w d = (case repo_at w d of None \<Rightarrow> [] | Some rs \<Rightarrow> rs)"

definition origins :: "world \<Rightarrow> string \<Rightarrow> remotes" where
  "origins w d = filter (\<lambda>r. fst r = ''origin'') (remotes_at w d)"

definition upload_request ::
    "config \<Rightarrow> body \<Rightarrow> string \<Rightarrow> string \<Rightarrow> string \<Rightarrow> string \<Rightarrow> bool" where
  "upload_request cfg req user src repo message =
     (truthy (GITHUB_PAT cfg) \<and> YOUR_GITHUB_USERNAME cfg = Some user \<and> user \<noteq> [] \<and>
      sourceLocalPath req = Some src \<and> src \<noteq> [] \<and> repoName req = Some repo \<and> repo \<noteq> [] \<and>
      commitMessage req = Some message \<and> message \<noteq> [])"

definition download_request :: "body \<Rightarrow> string \<Rightarrow> string \<Rightarrow> bool" where
  "download_request req url localPath =
     (githubRepoUrl req = Some url \<and> url \<noteq> [] \<and>
      localDownloadPath req = Some localPath \<and> localPath \<noteq> [])"

section \<open>Concrete requests and worlds\<close>

text \<open>A configuration with simple path functions, one upload request and one download
  request, and a few worlds to run the handlers in.  In a world built by \<open>world_of\<close>
  the writing of a working tree changes no entry that is there, and \<^verbatim>\<open>git add .\<close>
  finds one changed file.\<close>

definition join0 :: "string \<Rightarrow> string \<Rightarrow> string" where
  "join0 a b = a @ ''/'' @ b"

definition dirname0 :: "string \<Rightarrow> string" where
  "dirname0 p = rev (drop 1 (dropWhile (\<lambda>c. c \<noteq> CHR ''/'') (rev p)))"

definition basename0 :: "string \<Rightarrow> string" where
  "basename0 p = rev (takeWhile (\<lambda>c. c \<noteq> CHR ''/'') (rev p))"

definition cfg0 :: config where
  "cfg0 = \<lparr>GITHUB_PAT = Some ''ghp_token'', YOUR_GITHUB_USERNAME = Some ''acct'',
            RUN_VITE_PROJECT_SCRIPT_TEMPLATE = ''/tpl/run-vite-project.sh'',
            path_join = join0, path_dirname = dirname0, path_basename = basename0\<rparr>"

definition upload_req :: body where
  "upload_req = \<lparr>sourceLocalPath = Some ''/proj'', repoName = Some ''app'', branchName = None,
                  commitMessage = Some ''fix bug'', githubRepoUrl = None,
                  localDownloadPath = None\<rparr>"

definition download_req :: body where
  "download_req = \<lparr>sourceLocalPath = None, repoName = None, branchName = None,
                    commitMessage = None,
                    githubRepoUrl = Some ''https://github.com/acct/app.git'',
                    localDownloadPath = Some ''/repos/app''\<rparr>"

definition no_fault :: "nat \<Rightarrow> call \<Rightarrow> string option" where
  "no_fault n c = None"

definition world_of :: "fsys \<Rightarrow> (nat \<Rightarrow> call \<Rightarrow> string option) \<Rightarrow> string \<Rightarrow> world" where
  "world_of fs flt cur =
     \<lparr>files = fs, trace = [], fault = flt, commit_of = (\<lambda>n. ''abc1234''),
      current_of = (\<lambda>n. cur), tree_of = (\<lambda>n t. t),
      pending = (\<lambda>n. [''package.json''])\<rparr>"

text \<open>A project directory that is not under version control and has no helper script.\<close>

definition plain_project :: fsys where
  "plain_project =
     [''/tpl/run-vite-project.sh'' \<mapsto> File 420, ''/proj'' \<mapsto> Dir None,
      ''/proj/package.json'' \<mapsto> File 420]"

text \<open>The states an upload of \<open>upload_req\<close> goes through, from a given start.\<close>

definition validated :: "world \<Rightarrow> world" where
  "validated w = snd (validate_source cfg0 ''/proj'' w)"

definition prepared :: "world \<Rightarrow> world" where
  "prepared w =
     snd (upload_prepare cfg0 ''/proj'' (remoteUrl_of ''acct'' ''app'') ''main'' (validated w))"

definition staged :: "world \<Rightarrow> world" where
  "staged w = snd (git_add ''/proj'' ''.'' (prepared w))"

definition committed :: "world \<Rightarrow> world" where
  "committed w = snd (stage_and_commit ''/proj'' ''fix bug'' (prepared w))"

definition queried :: "world \<Rightarrow> world" where
  "queried w = snd (git_branch_show_current ''/proj'' (committed w))"

text \<open>An upload to the tag \<^verbatim>\<open>v1.0\<close> from a working copy that is set up already: the
  checkout of a tag leaves the head detached, and git reports no current branch.\<close>

definition tag_req :: body where
  "tag_req = upload_req\<lparr>branchName := Some ''v1.0''\<rparr>"

definition detached_world :: world where
  "detached_world =
     world_of (plain_project(''/proj'' \<mapsto> Dir (Some ([(''origin'', ''git@github.com:acct/app.git'')], [])),
                             ''/proj/run-vite-project.sh'' \<mapsto> File 493)) no_fault []"

text \<open>The remote rejects the push that asks for upstream tracking, and only that one.\<close>

fun rejects_upstream :: "nat \<Rightarrow> call \<Rightarrow> string option" where
  "rejects_upstream n (GitPush d r b True) = Some ''error: failed to push some refs''"
| "rejects_upstream n c = None"

definition rejected_world :: world where
  "rejected_world = world_of plain_project rejects_upstream ''main''"

text \<open>git knows no author identity, and the commit fails.\<close>

fun no_identity :: "nat \<Rightarrow> call \<Rightarrow> string option" where
  "no_identity n (GitCommit d m) = Some ''fatal: unable to auto-detect email address''"
| "no_identity n c = None"

definition anonymous_world :: world where
  "anonymous_world = world_of plain_project no_identity ''main''"

text \<open>A working copy that is set up and in which nothing has changed since the last
  commit: \<^verbatim>\<open>git add .\<close> finds nothing, and nothing is staged.\<close>

definition idle_world :: world where
  "idle_world =
     (world_of (plain_project(''/proj'' \<mapsto> Dir (Some ([(''origin'', ''git@github.com:acct/app.git'')], [])),
                              ''/proj/run-vite-project.sh'' \<mapsto> File 493)) no_fault ''main'')
       \<lparr>pending := (\<lambda>n. [])\<rparr>"

text \<open>The template of the helper script is missing.\<close>

definition no_template_world :: world where
  "no_template_world =
     world_of (plain_project(''/tpl/run-vite-project.sh'' := None)) no_fault ''main''"

text \<open>The helper script is tracked on the branch that is checked out and has been deleted
  from the working tree, and the branch \<^verbatim>\<open>main\<close> does not have it: the checkout of
  \<^verbatim>\<open>main\<close> removes the script from the working tree.\<close>

definition drops_script :: "nat \<Rightarrow> fsys \<Rightarrow> fsys" where
  "drops_script n t = t(''/proj/run-vite-project.sh'' := None)"

definition tracked_script_world :: world where
  "tracked_script_world =
     (world_of (plain_project(''/proj'' \<mapsto> Dir (Some ([(''origin'', ''git@github.com:acct/app.git'')], []))))
        no_fault ''main'')
       \<lparr>tree_of := drops_script\<rparr>"

text \<open>A working copy without remotes in which the requested branch does not exist.\<close>

fun branch_missing :: "nat \<Rightarrow> call \<Rightarrow> string option" where
  "branch_missing n (GitCheckout d b) =
     Some ''error: pathspec main did not match any file(s) known to git''"
| "branch_missing n c = None"

definition repo_project :: fsys where
  "repo_project = plain_project(''/proj'' \<mapsto> Dir (Some ([], [])))"

definition missing_branch_world :: world where
  "missing_branch_world = world_of repo_project branch_missing ''main''"

text \<open>A working copy whose \<^verbatim>\<open>origin\<close> still has the web URL.\<close>

definition stale_project :: fsys where
  "stale_project =
     plain_project(''/proj'' \<mapsto>
       Dir (Some ([(''upstream'', ''git@github.com:other/lib.git''),
                  (''origin'', ''https://github.com/acct/app.git'')], [])))"

definition stale_world :: world where
  "stale_world = world_of stale_project no_fault ''main''"

definition reconciled :: "world \<Rightarrow> world" where
  "reconciled w = snd (reconcile_remote ''/proj'' ''git@github.com:acct/app.git'' w)"

text \<open>The states in which the helper script of \<open>upload_req\<close> is looked for, copied
  and made executable.\<close>

definition script_probed :: "world \<Rightarrow> world" where
  "script_probed w = snd (fs_stat ''/proj/run-vite-project.sh'' (validated w))"

definition script_copied :: "world \<Rightarrow> world" where
  "script_copied w =
     snd (fs_copyFile ''/tpl/run-vite-project.sh'' ''/proj/run-vite-project.sh'' (script_probed w))"

definition script_ready :: "world \<Rightarrow> world" where
  "script_ready w = snd (fs_chmod ''/proj/run-vite-project.sh'' 493 (script_copied w))"

definition checked_out :: "world \<Rightarrow> world" where
  "checked_out w = snd (git_checkout ''/proj'' ''main'' w)"

text \<open>Targets of a download of \<open>download_req\<close>: a working copy without
  \<^verbatim>\<open>origin\<close>, a directory without metadata, a working copy whose \<^verbatim>\<open>origin\<close> has the
  web URL, and no target at all with an installation and a removal that fail.\<close>

definition download_base :: fsys where
  "download_base = [''/tpl/run-vite-project.sh'' \<mapsto> File 420, ''/repos'' \<mapsto> Dir None]"

definition no_origin_world :: world where
  "no_origin_world =
     world_of (download_base(''/repos/app'' \<mapsto> Dir (Some ([], [])),
                             ''/repos/app/package.json'' \<mapsto> File 420)) no_fault ''main''"

definition plain_target_world :: world where
  "plain_target_world =
     world_of (download_base(''/repos/app'' \<mapsto> Dir None,
                             ''/repos/app/notes.txt'' \<mapsto> File 420)) no_fault ''main''"

definition stale_target_world :: world where
  "stale_target_world =
     world_of (download_base(''/repos/app'' \<mapsto>
                 Dir (Some ([(''origin'', ''https://github.com/acct/app.git'')], [])))) no_fault ''main''"

fun npm_and_rm_fail :: "nat \<Rightarrow> call \<Rightarrow> string option" where
  "npm_and_rm_fail n (NpmInstall p) = Some ''npm ERR! code E404''"
| "npm_and_rm_fail n (FsRm p) = Some ''EACCES: permission denied''"
| "npm_and_rm_fail n c = None"

definition broken_install_world :: world where
  "broken_install_world = world_of download_base npm_and_rm_fail ''main''"

text \<open>A working copy without \<^verbatim>\<open>origin\<close> that cannot be removed: a file below it is
  in use.\<close>

fun rm_busy :: "nat \<Rightarrow> call \<Rightarrow> string option" where
  "rm_busy n (FsRm p) = Some ''EBUSY: resource busy or locked''"
| "rm_busy n c = None"

definition busy_target_world :: world where
  "busy_target_world =
     world_of (download_base(''/repos/app'' \<mapsto> Dir (Some ([], [])),
                             ''/repos/app/package.json'' \<mapsto> File 420)) rm_busy ''main''"

text \<open>The states a download of \<open>download_req\<close> goes through.\<close>

definition made :: "world \<Rightarrow> world" where
  "made w = snd (fs_mkdir ''/repos'' w)"

definition target_found :: "world \<Rightarrow> world" where
  "target_found w = snd (fs_stat ''/repos/app'' (made w))"

definition listed :: "world \<Rightarrow> world" where
  "listed w = snd (git_getRemotes ''/repos/app'' (target_found w))"

definition updated :: "world \<Rightarrow> world" where
  "updated w =
     snd (update_existing ''/repos/app'' ''git@github.com:acct/app.git'' ''main'' (target_found w))"

definition removed :: "world \<Rightarrow> world" where
  "removed w = snd (fs_rm ''/repos/app'' (updated w))"

definition tried :: "world \<Rightarrow> world" where
  "tried w =
     snd (download_try cfg0 ''https://github.com/acct/app.git'' ''/repos/app'' ''main'' w)"

section \<open>Properties of convertToSshUrl\<close>

lemma replace_git_suffix_id: "replace_git_suffix s = s"
proof (cases "suffix ''.git'' s")
  case True
  then obtain u where u: "s = u @ ''.git''"
    by (auto simp: suffix_def)
  show ?thesis
    unfolding replace_git_suffix_def u by simp
next
  case False
  then show ?thesis
    by (simp add: replace_git_suffix_def)
qed

lemma replace_first_at_head:
  assumes "prefix p s" and "p \<noteq> []"
  shows "replace_first s p r = r @ drop (length p) s"
proof (cases s)
  case Nil
  with assms show ?thesis by simp
next
  case (Cons c cs)
  with assms show ?thesis by simp
qed

lemma convertToSshUrl_web:
  assumes "startsWith r ''https://github.com/''"
  shows "convertToSshUrl r = ''git@github.com:'' @ drop 19 r"
proof -
  from assms have p: "prefix ''https://github.com/'' r"
    by (simp add: startsWith_def)
  have ne: "''https://github.com/'' \<noteq> []"
    by simp
  have len: "length ''https://github.com/'' = 19"
    by simp
  have "replace_first r ''https://github.com/'' ''git@github.com:''
          = ''git@github.com:'' @ drop 19 r"
    by (simp only: replace_first_at_head [OF p ne] len)
  with assms show ?thesis
    by (simp only: convertToSshUrl_def replace_git_suffix_id if_True)
qed

lemma convertToSshUrl_other:
  "\<not> startsWith r ''https://github.com/'' \<Longrightarrow> convertToSshUrl r = r"
  by (simp add: convertToSshUrl_def)

lemma ssh_form_not_web: "\<not> startsWith (''git@github.com:'' @ t) ''https://github.com/''"
  by (simp add: startsWith_def)

text \<open>C8.  Resolving twice is resolving once: \<open>convertToSshUrl (convertToSshUrl r)\<close> is
  \<open>convertToSshUrl r\<close> for every reference \<open>r\<close>, and a reference that does not start
  with \<^verbatim>\<open>https://github.com/\<close> is returned unchanged.\<close>

theorem convertToSshUrl_idempotent:
  "convertToSshUrl (convertToSshUrl r) = convertToSshUrl r \<and>
   (\<not> startsWith r ''https://github.com/'' \<longrightarrow> convertToSshUrl r = r)"
proof (cases "startsWith r ''https://github.com/''")
  case True
  have "convertToSshUrl (''git@github.com:'' @ drop 19 r) = ''git@github.com:'' @ drop 19 r"
    by (rule convertToSshUrl_other [OF ssh_form_not_web])
  then have "convertToSshUrl (convertToSshUrl r) = convertToSshUrl r"
    by (simp only: convertToSshUrl_web [OF True])
  with True show ?thesis
    by simp
next
  case False
  then show ?thesis
    by (simp add: convertToSshUrl_other)
qed

theorem convertToSshUrl_idempotent_witness:
  "\<not> startsWith ''git@github.com:acct/repo.git'' ''https://github.com/'' \<and>
   convertToSshUrl ''git@github.com:acct/repo.git'' = ''git@github.com:acct/repo.git'' \<and>
   convertToSshUrl (convertToSshUrl ''https://github.com/acct/repo.git'')
     = convertToSshUrl ''https://github.com/acct/repo.git''"
  using convertToSshUrl_idempotent [of "''git@github.com:acct/repo.git''"]
    convertToSshUrl_idempotent [of "''https://github.com/acct/repo.git''"]
  by (simp add: startsWith_def)

text \<open>C9.  The code at the web form of a repository named without the \<^verbatim>\<open>.git\<close>
  suffix, and at the web form with it: the rest of the reference is copied as it is, so
  the two web forms of one repository resolve to two different transport forms.  The
  second \<^verbatim>\<open>replace\<close> of line 42 puts \<^verbatim>\<open>.git\<close> where it found \<^verbatim>\<open>.git\<close>
  (lemma \<open>replace_git_suffix_id\<close>) and normalizes nothing.\<close>

theorem convertToSshUrl_suffix_kept:
  "convertToSshUrl ''https://github.com/acct/repo'' = ''git@github.com:acct/repo'' \<and>
   convertToSshUrl ''https://github.com/acct/repo.git'' = ''git@github.com:acct/repo.git''"
  by (simp add: convertToSshUrl_def startsWith_def replace_git_suffix_id)

section \<open>Basic facts about calls and traces\<close>

lemma invoke_result:
  assumes "invoke c sem w = (r, w')"
  shows "trace w' = trace w @ [(c, outcome r)]"
    and "fault w' = fault w" and "commit_of w' = commit_of w" and "current_of w' = current_of w"
    and "tree_of w' = tree_of w" and "pending w' = pending w"
  using assms
  by (auto simp: invoke_def outcome_def split: option.splits sum.splits)

lemma result_eqI: "fst x = a \<Longrightarrow> snd x = w \<Longrightarrow> x = (a, w)"
  by auto

lemma extends_refl: "extends w w"
  by (simp add: extends_def)

lemma extends_trans: "extends w w1 \<Longrightarrow> extends w1 w2 \<Longrightarrow> extends w w2"
  unfolding extends_def by (rule prefix_order.order_trans)

lemma invoke_extends: "extends w (snd (invoke c sem w))"
  by (cases "invoke c sem w") (simp add: extends_def invoke_result(1))

lemma bnd_extends:
  assumes "\<And>w. extends w (snd (m w))" and "\<And>a w. extends w (snd (k a w))"
  shows "extends w (snd (bnd m k w))"
proof (cases "m w")
  case (Pair r w1)
  from assms(1) [of w] Pair have e1: "extends w w1" by simp
  show ?thesis
  proof (cases r)
    case (Inl e)
    with Pair e1 show ?thesis by (simp add: bnd_def)
  next
    case (Inr a)
    with Pair have "bnd m k w = k a w1" by (simp add: bnd_def)
    with e1 assms(2) [of w1 a] show ?thesis by (auto intro: extends_trans)
  qed
qed

lemma fs_stat_trace:
  "fs_stat p w = (r, w') \<Longrightarrow> trace w' = trace w @ [(FsStat p, outcome r)]"
  unfolding fs_stat_def by (rule invoke_result(1))

lemma fs_rm_trace:
  "fs_rm p w = (r, w') \<Longrightarrow> trace w' = trace w @ [(FsRm p, outcome r)]"
  unfolding fs_rm_def by (rule invoke_result(1))

lemma fs_copyFile_trace:
  "fs_copyFile p q w = (r, w') \<Longrightarrow> trace w' = trace w @ [(FsCopyFile p q, outcome r)]"
  unfolding fs_copyFile_def by (rule invoke_result(1))

lemma fs_chmod_trace:
  "fs_chmod p mode w = (r, w') \<Longrightarrow> trace w' = trace w @ [(FsChmod p mode, outcome r)]"
  unfolding fs_chmod_def by (rule invoke_result(1))

lemma git_addRemote_trace:
  "git_addRemote d n url w = (r, w') \<Longrightarrow> trace w' = trace w @
      [(GitAddRemote d n url, outcome r)]"
  unfolding git_addRemote_def by (rule invoke_result(1))

lemma git_getRemotes_trace:
  "git_getRemotes d w = (r, w') \<Longrightarrow> trace w' = trace w @
      [(GitGetRemotes d, outcome r)]"
  unfolding git_getRemotes_def by (rule invoke_result(1))

lemma git_removeRemote_trace:
  "git_removeRemote d n w = (r, w') \<Longrightarrow> trace w' = trace w @
      [(GitRemoveRemote d n, outcome r)]"
  unfolding git_removeRemote_def by (rule invoke_result(1))

lemma git_checkout_trace:
  "git_checkout d b w = (r, w') \<Longrightarrow> trace w' = trace w @
      [(GitCheckout d b, outcome r)]"
  unfolding git_checkout_def by (rule invoke_result(1))

lemma git_checkoutNew_trace:
  "git_checkoutNew d b w = (r, w') \<Longrightarrow> trace w' = trace w @
      [(GitCheckoutNew d b, outcome r)]"
  unfolding git_checkoutNew_def by (rule invoke_result(1))

lemma git_commit_trace:
  "git_commit d msg w = (r, w') \<Longrightarrow> trace w' = trace w @
      [(GitCommit d msg, outcome r)]"
  unfolding git_commit_def by (rule invoke_result(1))

lemma git_push_trace:
  "git_push d n b u w = (r, w') \<Longrightarrow> trace w' = trace w @
      [(GitPush d n b u, outcome r)]"
  unfolding git_push_def by (rule invoke_result(1))

lemma git_pull_trace:
  "git_pull d n b w = (r, w') \<Longrightarrow> trace w' = trace w @ [(GitPull d n b, outcome r)]"
  unfolding git_pull_def by (rule invoke_result(1))

lemma git_clone_trace:
  "git_clone url p b w = (r, w') \<Longrightarrow> trace w' = trace w @
      [(GitClone url p b, outcome r)]"
  unfolding git_clone_def by (rule invoke_result(1))

lemma git_extends:
  "extends w (snd (git_checkIsRepo d w))"
  "extends w (snd (git_init d w))"
  "extends w (snd (git_addRemote d n url w))"
  "extends w (snd (git_getRemotes d w))"
  "extends w (snd (git_removeRemote d n w))"
  "extends w (snd (git_checkout d b w))"
  "extends w (snd (git_checkoutNew d b w))"
  "extends w (snd (git_add d ps w))"
  "extends w (snd (git_commit d msg w))"
  "extends w (snd (git_branch_show_current d w))"
  "extends w (snd (git_push d n b u w))"
  "extends w (snd (git_pull d n b w))"
  "extends w (snd (git_clone url p b w))"
  unfolding git_checkIsRepo_def git_init_def git_addRemote_def git_getRemotes_def
    git_removeRemote_def git_checkout_def git_checkoutNew_def git_add_def git_commit_def
    git_branch_show_current_def git_push_def git_pull_def git_clone_def
  by (rule invoke_extends)+

lemma fs_extends:
  "extends w (snd (fs_stat p w))"
  "extends w (snd (fs_mkdir p w))"
  "extends w (snd (fs_rm p w))"
  "extends w (snd (fs_copyFile p q w))"
  "extends w (snd (fs_chmod p mode w))"
  "extends w (snd (npm_install p w))"
  unfolding fs_stat_def fs_mkdir_def fs_rm_def fs_copyFile_def fs_chmod_def npm_install_def
  by (rule invoke_extends)+

lemma ret_extends: "extends w (snd (ret a w))"
  by (simp add: ret_def extends_refl)

lemma push_branch_extends: "extends w (snd (push_branch d b w))"
  unfolding push_branch_def
proof (rule bnd_extends [OF git_extends(10)])
  fix current w
  show "extends w (snd ((if current = b
          then (\<lambda>w. case git_push d ''origin'' b True w of
                  (Inl pushError, w1) \<Rightarrow> git_push d ''origin'' b False w1
                | (Inr u, w1) \<Rightarrow> (Inr (), w1))
          else git_push d ''origin'' b False) w))"
  proof (cases "current = b")
    case False
    then show ?thesis by (simp add: git_extends)
  next
    case True
    obtain r w1 where f: "git_push d ''origin'' b True w = (r, w1)"
      by (cases "git_push d ''origin'' b True w")
    from git_extends(11) [of w d "''origin''" b True] f have e1: "extends w w1" by simp
    show ?thesis
    proof (cases r)
      case (Inr u)
      with True f e1 show ?thesis by simp
    next
      case (Inl m)
      with True f e1 git_extends(11) [of w1 d "''origin''" b False] show ?thesis
        by (auto intro: extends_trans)
    qed
  qed
qed

lemma upload_request_unfold:
  assumes "upload_request cfg req user src repo msg"
  shows "upload_vite_project cfg req w =
           upload_catch (upload_try cfg user src repo (actualBranchName_of req) msg w)"
  using assms
  by (simp add: upload_request_def upload_vite_project_def truthy_def str_def)

lemma push_branch_shape:
  assumes q: "git_branch_show_current d w = (Inr current, w1)"
    and p: "push_branch d b w = (r, w')"
  shows "if current = b
         then (trace w' = trace w1 @ [(GitPush d ''origin'' b True, None)] \<and> r = Inr ()) \<or>
              (\<exists>m. trace w' = trace w1 @ [(GitPush d ''origin'' b True, Some m),
                                   (GitPush d ''origin'' b False, outcome r)])
         else trace w' = trace w1 @ [(GitPush d ''origin'' b False, outcome r)]"
proof (cases "current = b")
  case False
  with q p have "git_push d ''origin'' b False w1 = (r, w')"
    by (simp add: push_branch_def bnd_def)
  from git_push_trace [OF this] False show ?thesis
    by simp
next
  case True
  obtain r1 w2 where first: "git_push d ''origin'' b True w1 = (r1, w2)"
    by (cases "git_push d ''origin'' b True w1")
  note t1 = git_push_trace [OF first]
  show ?thesis
  proof (cases r1)
    case (Inr u)
    with q p True first have "r = Inr ()" "w' = w2"
      by (simp_all add: push_branch_def bnd_def)
    with t1 Inr True show ?thesis
      by (simp add: outcome_def)
  next
    case (Inl m)
    with q p True first have "git_push d ''origin'' b False w2 = (r, w')"
      by (simp add: push_branch_def bnd_def)
    from git_push_trace [OF this] t1 Inl True show ?thesis
      by (simp add: outcome_def)
  qed
qed

section \<open>Upload: the push stage\<close>

lemma upload_reaches_sync:
  assumes "upload_request cfg req user src repo msg"
    and "validate_source cfg src w = (None, w1)"
    and "upload_prepare cfg src (remoteUrl_of user repo) (actualBranchName_of req) w1 = (Inr (), w2)"
  shows "upload_vite_project cfg req w =
           upload_catch (upload_sync cfg user src repo (actualBranchName_of req) msg w2)"
  using assms by (simp add: upload_request_unfold upload_try_def bnd_def)

text \<open>C1 (as amended).  An upload that has committed asks git for the current branch.
  When git reports the requested branch, the first push asks for upstream tracking
  (\<^verbatim>\<open>--set-upstream\<close>); if that push fails, exactly one plain push follows, and the
  failure of this retry is the error the caller receives (status 500).  When git reports
  any other name, a single plain push is made and its failure is what the caller
  receives.  Nothing else is called after the branch query.\<close>

theorem push_after_branch_query:
  assumes req: "upload_request cfg req user src repo msg"
    and v: "validate_source cfg src w = (None, w1)"
    and p: "upload_prepare cfg src (remoteUrl_of user repo) (actualBranchName_of req) w1 = (Inr (), w2)"
    and c: "stage_and_commit src msg w2 = (Inr commit, w3)"
    and q: "git_branch_show_current src w3 = (Inr current, w4)"
    and run: "upload_vite_project cfg req w = (sent, w')"
  shows "if current = actualBranchName_of req
         then (trace w' = trace w4 @
             [(GitPush src ''origin'' (actualBranchName_of req) True, None)] \<and>
               sent = upload_ok cfg user src repo (actualBranchName_of req) commit) \<or>
              (\<exists>m. trace w' = trace w4 @
                  [(GitPush src ''origin'' (actualBranchName_of req) True, Some m),
                                   (GitPush src ''origin'' (actualBranchName_of req) False, None)] \<and>
                   sent = upload_ok cfg user src repo (actualBranchName_of req) commit) \<or>
              (\<exists>m m'. trace w' = trace w4 @
                  [(GitPush src ''origin'' (actualBranchName_of req) True, Some m),
                                      (GitPush src ''origin'' (actualBranchName_of req) False, Some m')] \<and>
                      sent = Response 500 [(''message'', ''Failed to upload Vite project: '' @ m')])
         else (trace w' = trace w4 @
             [(GitPush src ''origin'' (actualBranchName_of req) False, None)] \<and>
               sent = upload_ok cfg user src repo (actualBranchName_of req) commit) \<or>
              (\<exists>m. trace w' = trace w4 @
                  [(GitPush src ''origin'' (actualBranchName_of req) False, Some m)] \<and>
                   sent = Response 500 [(''message'', ''Failed to upload Vite project: '' @ m)])"
proof -
  define b where "b = actualBranchName_of req"
  obtain r w5 where pb: "push_branch src b w3 = (r, w5)"
    by (cases "push_branch src b w3")
  from upload_reaches_sync [OF req v p] c pb run
  have res: "w' = w5"
    "sent = (case r of Inr u \<Rightarrow> upload_ok cfg user src repo b commit
             | Inl m \<Rightarrow> Response 500 [(''message'', ''Failed to upload Vite project: '' @ m)])"
    by (auto simp: upload_sync_def bnd_def ret_def upload_catch_def b_def split: sum.splits)
  from push_branch_shape [OF q pb] res show ?thesis
    unfolding b_def [symmetric]
    by (cases r) (auto simp: outcome_def split: if_splits)
qed

text \<open>C1 as stated fails: here git reports no current branch, every call up to the
  commit succeeds, the upload reaches the push stage and its first and only push is the
  plain one.\<close>

theorem first_push_plain_counterexample:
  "map fst (trace (snd (upload_vite_project cfg0 tag_req detached_world)))
     = [FsStat ''/proj'', FsStat ''/proj/package.json'', FsStat ''/proj/run-vite-project.sh'',
        GitCheckIsRepo ''/proj'', GitGetRemotes ''/proj'', GitCheckout ''/proj'' ''v1.0'',
        GitAdd ''/proj'' ''.'', GitCommit ''/proj'' ''fix bug'', GitBranchShowCurrent ''/proj'',
        GitPush ''/proj'' ''origin'' ''v1.0'' False] \<and>
   filter (\<lambda>ev. is_push (fst ev)) (trace (snd (upload_vite_project cfg0 tag_req detached_world)))
     = [(GitPush ''/proj'' ''origin'' ''v1.0'' False, None)] \<and>
   status (fst (upload_vite_project cfg0 tag_req detached_world)) = 200"
  by code_simp

theorem push_after_branch_query_witness:
  "upload_request cfg0 upload_req ''acct'' ''/proj'' ''app'' ''fix bug'' \<and>
   validate_source cfg0 ''/proj'' rejected_world = (None, validated rejected_world) \<and>
   upload_prepare cfg0 ''/proj'' (remoteUrl_of ''acct'' ''app'') (actualBranchName_of upload_req)
     (validated rejected_world) = (Inr (), prepared rejected_world) \<and>
   stage_and_commit ''/proj'' ''fix bug'' (prepared rejected_world)
     = (Inr ''abc1234'', committed rejected_world) \<and>
   git_branch_show_current ''/proj'' (committed rejected_world)
     = (Inr ''main'', queried rejected_world) \<and>
   trace (snd (upload_vite_project cfg0 upload_req rejected_world))
     = trace (queried rejected_world) @
         [(GitPush ''/proj'' ''origin'' ''main'' True, Some ''error: failed to push some refs''),
        (GitPush ''/proj'' ''origin'' ''main'' False, None)] \<and>
   fst (upload_vite_project cfg0 upload_req rejected_world)
     = upload_ok cfg0 ''acct'' ''/proj'' ''app'' ''main'' ''abc1234''"
proof -
  have b: "actualBranchName_of upload_req = ''main''"
    by code_simp
  have h1: "upload_request cfg0 upload_req ''acct'' ''/proj'' ''app'' ''fix bug''"
    by code_simp
  have h2: "validate_source cfg0 ''/proj'' rejected_world = (None, validated rejected_world)"
    by (rule result_eqI) (code_simp, simp add: validated_def)
  have h3: "upload_prepare cfg0 ''/proj'' (remoteUrl_of ''acct'' ''app'') (actualBranchName_of upload_req)
     (validated rejected_world) = (Inr (), prepared rejected_world)"
    unfolding b by (rule result_eqI) (code_simp, simp add: prepared_def)
  have h4: "stage_and_commit ''/proj'' ''fix bug'' (prepared rejected_world)
     = (Inr ''abc1234'', committed rejected_world)"
    by (rule result_eqI) (code_simp, simp add: committed_def)
  have h5: "git_branch_show_current ''/proj'' (committed rejected_world)
     = (Inr ''main'', queried rejected_world)"
    by (rule result_eqI) (code_simp, simp add: queried_def)
  have t: "trace (snd (upload_vite_project cfg0 upload_req rejected_world))
     = trace (queried rejected_world) @
         [(GitPush ''/proj'' ''origin'' ''main'' True, Some ''error: failed to push some refs''),
        (GitPush ''/proj'' ''origin'' ''main'' False, None)]"
    by code_simp
  from push_after_branch_query [OF h1 h2 h3 h4 h5 prod.collapse [symmetric]] t
  have "fst (upload_vite_project cfg0 upload_req rejected_world)
     = upload_ok cfg0 ''acct'' ''/proj'' ''app'' ''main'' ''abc1234''"
    unfolding b by simp
  with h1 h2 h3 h4 h5 t show ?thesis
    by (intro conjI)
qed

section \<open>Upload: stage and commit\<close>

lemma git_add_ok:
  assumes "git_add d ps w = (Inr u, w')"
  shows "\<exists>rs. repo_at w d = Some rs \<and> repo_at w' d = Some rs \<and>
              staged_at w' d = staged_at w d @ pending w (length (trace w))"
  using assms
  by (auto simp: git_add_def invoke_def repo_at_def staged_at_def
           split: option.splits node.splits)

lemma git_commit_nothing_staged:
  assumes c: "git_commit d msg w = (rc, w')"
    and repo: "repo_at w d = Some rs"
    and empty: "staged_at w d = []"
    and quiet: "fault w (length (trace w)) (GitCommit d msg) = None"
  shows "rc = Inr []"
  using assms
  by (auto simp: git_commit_def invoke_def)

lemma upload_after_commit:
  assumes req: "upload_request cfg req user src repo msg"
    and v: "validate_source cfg src w = (None, w1)"
    and p: "upload_prepare cfg src (remoteUrl_of user repo) (actualBranchName_of req) w1 = (Inr (), w2)"
    and a: "git_add src ''.'' w2 = (Inr (), w3)"
    and c: "git_commit src msg w3 = (rc, w4)"
  shows "upload_vite_project cfg req w =
           upload_catch
             (case rc of
                Inl m \<Rightarrow> (Inl m, w4)
              | Inr commit \<Rightarrow>
                  bnd (push_branch src (actualBranchName_of req))
                    (\<lambda>_. ret (upload_ok cfg user src repo (actualBranchName_of req) commit)) w4)"
  using a c
  by (simp add: upload_reaches_sync [OF req v p] upload_sync_def stage_and_commit_def bnd_def
           split: sum.splits)

text \<open>C6 (as amended).  The handler never looks at what is staged: once \<^verbatim>\<open>git add .\<close>
  has succeeded, whatever it staged, the next call is the commit with the caller's
  message.  An error that the commit throws ends the run: nothing else is called, nothing
  is pushed, and the caller receives status 500 with the message of that error.  But the
  commit of an empty staged set, when nothing makes it fail, throws no error: its commit
  identifier is the empty string.  After a commit that has not thrown, the handler pushes
  and answers by the push alone: success with the commit identifier it was given, the
  empty one too, or status 500 with the error of the push.\<close>

theorem commit_always_attempted:
  assumes req: "upload_request cfg req user src repo msg"
    and v: "validate_source cfg src w = (None, w1)"
    and p: "upload_prepare cfg src (remoteUrl_of user repo) (actualBranchName_of req) w1 = (Inr (), w2)"
    and a: "git_add src ''.'' w2 = (Inr (), w3)"
    and c: "git_commit src msg w3 = (rc, w4)"
    and pb: "push_branch src (actualBranchName_of req) w4 = (rp, w5)"
    and run: "upload_vite_project cfg req w = (sent, w')"
  shows "trace w4 = trace w3 @ [(GitCommit src msg, outcome rc)] \<and>
         extends w4 w' \<and>
         (\<forall>m. rc = Inl m \<longrightarrow>
            w' = w4 \<and>
            sent = Response 500 [(''message'', ''Failed to upload Vite project: '' @ m)]) \<and>
         (staged_at w3 src = [] \<and> fault w3 (length (trace w3)) (GitCommit src msg) = None
            \<longrightarrow> rc = Inr []) \<and>
         (\<forall>commit. rc = Inr commit \<longrightarrow>
            w' = w5 \<and>
            sent = (case rp of
                      Inr u \<Rightarrow> upload_ok cfg user src repo (actualBranchName_of req) commit
                    | Inl m \<Rightarrow>
                        Response 500 [(''message'', ''Failed to upload Vite project: '' @ m)]))"
proof -
  note unf = upload_after_commit [OF req v p a c]
  have t: "trace w4 = trace w3 @ [(GitCommit src msg, outcome rc)]"
    by (rule git_commit_trace [OF c])
  have failed: "w' = w4 \<and>
      sent = Response 500 [(''message'', ''Failed to upload Vite project: '' @ m)]"
    if "rc = Inl m" for m
    using unf run that by (simp add: upload_catch_def)
  have pushed: "w' = w5 \<and>
      sent = (case rp of
                Inr u \<Rightarrow> upload_ok cfg user src repo (actualBranchName_of req) commit
              | Inl m \<Rightarrow> Response 500 [(''message'', ''Failed to upload Vite project: '' @ m)])"
    if "rc = Inr commit" for commit
    using unf run that pb
    by (cases rp) (auto simp: upload_catch_def bnd_def ret_def)
  have e: "extends w4 w'"
  proof (cases rc)
    case (Inl m)
    with failed show ?thesis by (simp add: extends_refl)
  next
    case (Inr commit)
    with pushed have "w' = w5" by simp
    with push_branch_extends [of w4 src "actualBranchName_of req"] pb show ?thesis
      by simp
  qed
  have empty: "rc = Inr []"
    if "staged_at w3 src = [] \<and> fault w3 (length (trace w3)) (GitCommit src msg) = None"
  proof -
    from git_add_ok [OF a] obtain rs where "repo_at w3 src = Some rs"
      by blast
    from git_commit_nothing_staged [OF c this] that show ?thesis
      by simp
  qed
  from t e failed empty pushed show ?thesis
    by blast
qed

text \<open>C6 as stated fails: here nothing has changed in the working copy, so that
  \<^verbatim>\<open>git add .\<close> stages nothing.  The commit is attempted and throws nothing, the
  handler pushes, and the caller receives status 200 with an empty commit identifier:
  no failure is propagated.\<close>

theorem empty_commit_succeeds_counterexample:
  "staged_at (staged idle_world) ''/proj'' = [] \<and>
   trace (snd (upload_vite_project cfg0 upload_req idle_world))
     = trace (staged idle_world) @
         [(GitCommit ''/proj'' ''fix bug'', None), (GitBranchShowCurrent ''/proj'', None),
          (GitPush ''/proj'' ''origin'' ''main'' True, None)] \<and>
   fst (upload_vite_project cfg0 upload_req idle_world)
     = upload_ok cfg0 ''acct'' ''/proj'' ''app'' ''main'' [] \<and>
   status (fst (upload_vite_project cfg0 upload_req idle_world)) = 200"
  by code_simp

theorem commit_always_attempted_witness:
  "upload_request cfg0 upload_req ''acct'' ''/proj'' ''app'' ''fix bug'' \<and>
   validate_source cfg0 ''/proj'' idle_world = (None, validated idle_world) \<and>
   upload_prepare cfg0 ''/proj'' (remoteUrl_of ''acct'' ''app'') (actualBranchName_of upload_req)
     (validated idle_world) = (Inr (), prepared idle_world) \<and>
   git_add ''/proj'' ''.'' (prepared idle_world) = (Inr (), staged idle_world) \<and>
   staged_at (staged idle_world) ''/proj'' = [] \<and>
   fault (staged idle_world) (length (trace (staged idle_world))) (GitCommit ''/proj'' ''fix bug'')
     = None \<and>
   fst (git_commit ''/proj'' ''fix bug'' (staged idle_world)) = Inr [] \<and>
   fst (upload_vite_project cfg0 upload_req idle_world)
     = upload_ok cfg0 ''acct'' ''/proj'' ''app'' ''main'' [] \<and>
   validate_source cfg0 ''/proj'' anonymous_world = (None, validated anonymous_world) \<and>
   upload_prepare cfg0 ''/proj'' (remoteUrl_of ''acct'' ''app'') (actualBranchName_of upload_req)
     (validated anonymous_world) = (Inr (), prepared anonymous_world) \<and>
   git_add ''/proj'' ''.'' (prepared anonymous_world) = (Inr (), staged anonymous_world) \<and>
   fst (git_commit ''/proj'' ''fix bug'' (staged anonymous_world))
     = Inl ''fatal: unable to auto-detect email address'' \<and>
   trace (snd (upload_vite_project cfg0 upload_req anonymous_world))
     = trace (staged anonymous_world) @
         [(GitCommit ''/proj'' ''fix bug'', Some ''fatal: unable to auto-detect email address'')] \<and>
   fst (upload_vite_project cfg0 upload_req anonymous_world)
     = Response 500 [(''message'',
         ''Failed to upload Vite project: fatal: unable to auto-detect email address'')]"
proof -
  have b: "actualBranchName_of upload_req = ''main''"
    by code_simp
  have h1: "upload_request cfg0 upload_req ''acct'' ''/proj'' ''app'' ''fix bug''"
    by code_simp
  have i2: "validate_source cfg0 ''/proj'' idle_world = (None, validated idle_world)"
    by (rule result_eqI) (code_simp, simp add: validated_def)
  have i3: "upload_prepare cfg0 ''/proj'' (remoteUrl_of ''acct'' ''app'') (actualBranchName_of upload_req)
     (validated idle_world) = (Inr (), prepared idle_world)"
    unfolding b by (rule result_eqI) (code_simp, simp add: prepared_def)
  have i4: "git_add ''/proj'' ''.'' (prepared idle_world) = (Inr (), staged idle_world)"
    by (rule result_eqI) (code_simp, simp add: staged_def)
  have i5: "staged_at (staged idle_world) ''/proj'' = []"
    by code_simp
  have i6: "fault (staged idle_world) (length (trace (staged idle_world)))
              (GitCommit ''/proj'' ''fix bug'') = None"
    by code_simp
  have i7: "fst (push_branch ''/proj'' ''main''
                  (snd (git_commit ''/proj'' ''fix bug'' (staged idle_world)))) = Inr ()"
    by code_simp
  note idle = commit_always_attempted [OF h1 i2 i3 i4 prod.collapse [symmetric]
      prod.collapse [symmetric] prod.collapse [symmetric]]
  from idle [THEN conjunct2, THEN conjunct2, THEN conjunct2, THEN conjunct1] i5 i6
  have i8: "fst (git_commit ''/proj'' ''fix bug'' (staged idle_world)) = Inr []"
    by simp
  from idle [THEN conjunct2, THEN conjunct2, THEN conjunct2, THEN conjunct2, rule_format, OF i8]
    i7
  have i9: "fst (upload_vite_project cfg0 upload_req idle_world)
     = upload_ok cfg0 ''acct'' ''/proj'' ''app'' ''main'' []"
    unfolding b by simp
  have a2: "validate_source cfg0 ''/proj'' anonymous_world = (None, validated anonymous_world)"
    by (rule result_eqI) (code_simp, simp add: validated_def)
  have a3: "upload_prepare cfg0 ''/proj'' (remoteUrl_of ''acct'' ''app'') (actualBranchName_of upload_req)
     (validated anonymous_world) = (Inr (), prepared anonymous_world)"
    unfolding b by (rule result_eqI) (code_simp, simp add: prepared_def)
  have a4: "git_add ''/proj'' ''.'' (prepared anonymous_world) = (Inr (), staged anonymous_world)"
    by (rule result_eqI) (code_simp, simp add: staged_def)
  have a5: "fst (git_commit ''/proj'' ''fix bug'' (staged anonymous_world))
     = Inl ''fatal: unable to auto-detect email address''"
    by code_simp
  note anon = commit_always_attempted [OF h1 a2 a3 a4 prod.collapse [symmetric]
      prod.collapse [symmetric] prod.collapse [symmetric]]
  note a6 = anon [THEN conjunct2, THEN conjunct2, THEN conjunct1, rule_format, OF a5]
  from anon [THEN conjunct1] a5 a6 [THEN conjunct1]
  have a7: "trace (snd (upload_vite_project cfg0 upload_req anonymous_world))
     = trace (staged anonymous_world) @
         [(GitCommit ''/proj'' ''fix bug'', Some ''fatal: unable to auto-detect email address'')]"
    by (simp add: outcome_def)
  from a6 [THEN conjunct2]
  have a8: "fst (upload_vite_project cfg0 upload_req anonymous_world)
     = Response 500 [(''message'',
         ''Failed to upload Vite project: fatal: unable to auto-detect email address'')]"
    by simp
  from h1 i2 i3 i4 i5 i6 i8 i9 a2 a3 a4 a5 a7 a8 show ?thesis
    by (intro conjI)
qed

section \<open>Upload: the branch\<close>

text \<open>C4.  \<open>checkout_branch\<close> first tries to switch to the branch.  It creates the
  branch, with the single call \<^verbatim>\<open>git checkout -b\<close> (no start point: from the current
  position), if and only if the switch failed with an error that the handler classifies
  as branch-not-found, which it does by the message containing \<^verbatim>\<open>pathspec\<close> or
  \<^verbatim>\<open>not found\<close>; the result is then the result of that call.  Every other failure
  of the switch is returned to the caller unchanged, and nothing else is called.\<close>

theorem checkout_branch_policy:
  assumes "checkout_branch d b w = (r, w')"
  shows "(trace w' = trace w @ [(GitCheckout d b, None)] \<and> r = Inr ()) \<or>
         (\<exists>m. branch_not_found m \<and>
              trace w' = trace w @
                  [(GitCheckout d b, Some m), (GitCheckoutNew d b, outcome r)]) \<or>
         (\<exists>m. \<not> branch_not_found m \<and> trace w' = trace w @
             [(GitCheckout d b, Some m)] \<and> r = Inl m)"
proof -
  obtain r1 w1 where f: "git_checkout d b w = (r1, w1)"
    by (cases "git_checkout d b w")
  note t1 = git_checkout_trace [OF f]
  show ?thesis
  proof (cases r1)
    case (Inr u)
    with assms f t1 show ?thesis
      by (auto simp: checkout_branch_def outcome_def)
  next
    case (Inl m)
    show ?thesis
    proof (cases "branch_not_found m")
      case False
      with assms f t1 Inl show ?thesis
        by (auto simp: checkout_branch_def outcome_def)
    next
      case True
      with assms f Inl have "git_checkoutNew d b w1 = (r, w')"
        by (simp add: checkout_branch_def)
      from git_checkoutNew_trace [OF this] t1 Inl True show ?thesis
        by (auto simp: outcome_def)
    qed
  qed
qed

theorem checkout_branch_policy_witness:
  "trace (snd (checkout_branch ''/proj'' ''main'' missing_branch_world))
     = trace missing_branch_world @ [(GitCheckout ''/proj'' ''main'',
           Some ''error: pathspec main did not match any file(s) known to git''),
        (GitCheckoutNew ''/proj'' ''main'', None)] \<and>
   branch_not_found ''error: pathspec main did not match any file(s) known to git'' \<and>
   fst (checkout_branch ''/proj'' ''main'' missing_branch_world) = Inr ()"
proof -
  have t: "trace (snd (checkout_branch ''/proj'' ''main'' missing_branch_world))
     = trace missing_branch_world @ [(GitCheckout ''/proj'' ''main'',
           Some ''error: pathspec main did not match any file(s) known to git''),
        (GitCheckoutNew ''/proj'' ''main'', None)]"
    by code_simp
  from checkout_branch_policy [where d = "''/proj''" and b = "''main''"
      and w = missing_branch_world, OF prod.collapse [symmetric]] t
  have "branch_not_found ''error: pathspec main did not match any file(s) known to git'' \<and>
        fst (checkout_branch ''/proj'' ''main'' missing_branch_world) = Inr ()"
    by (cases "fst (checkout_branch ''/proj'' ''main'' missing_branch_world)")
       (auto simp: outcome_def)
  with t show ?thesis
    by (intro conjI) simp_all
qed

section \<open>Upload: the remote\<close>

subsection \<open>What the remote commands do to the working copy\<close>

lemma git_checkIsRepo_ok:
  assumes "git_checkIsRepo d w = (r, w')"
  shows "files w' = files w" and "r = Inr b \<Longrightarrow> b = (repo_at w d \<noteq> None)"
  using assms
  by (auto simp: git_checkIsRepo_def invoke_def split: option.splits)

lemma git_init_files:
  assumes "git_init d w = (r, w')" and "repo_at w d = Some rs"
  shows "files w' = files w"
  using assms
  by (auto simp: git_init_def invoke_def repo_at_def split: option.splits node.splits)

lemma git_addRemote_ok:
  assumes "git_addRemote d n url w = (Inr u, w')"
  shows "\<exists>rs. repo_at w d = Some rs \<and> \<not> has_remote n rs \<and> repo_at w' d = Some (rs @ [(n, url)])"
  using assms
  by (auto simp: git_addRemote_def invoke_def repo_at_def split: option.splits node.splits if_splits)

lemma git_addRemote_present:
  assumes "git_addRemote d n url w = (r, w')" and "repo_at w d = Some rs" and "has_remote n rs"
  shows "files w' = files w"
  using assms
  by (auto simp: git_addRemote_def invoke_def split: option.splits)

lemma git_getRemotes_ok:
  assumes "git_getRemotes d w = (Inr rs, w')"
  shows "repo_at w d = Some rs" and "files w' = files w"
  using assms
  by (auto simp: git_getRemotes_def invoke_def split: option.splits)

lemma git_getRemotes_files:
  assumes "git_getRemotes d w = (r, w')"
  shows "files w' = files w"
  using assms
  by (auto simp: git_getRemotes_def invoke_def split: option.splits)

lemma repo_at_files: "files w' = files w \<Longrightarrow> repo_at w' d = repo_at w d"
  by (simp add: repo_at_def)

lemma has_remote_filter: "has_remote n rs = (filter (\<lambda>r. fst r = n) rs \<noteq> [])"
  by (induction rs) (auto simp: has_remote_def)

lemma find_first_filter:
  "find P xs = (case filter P xs of [] \<Rightarrow> None | x # ys \<Rightarrow> Some x)"
  by (induction xs) auto

lemma find_distinct_filter:
  "distinct (map fst rs) \<Longrightarrow> find (\<lambda>r. fst r = n) rs = Some c \<Longrightarrow>
     filter (\<lambda>r. fst r = n) rs = [c]"
proof (induction rs)
  case Nil
  then show ?case by simp
next
  case (Cons r rs)
  show ?case
  proof (cases "fst r = n")
    case True
    with Cons.prems have "c = r" and "\<forall>x\<in>set rs. fst x \<noteq> n"
      by (auto simp: image_iff)
    then show ?thesis
      using True by (simp add: filter_empty_conv)
  next
    case False
    with Cons show ?thesis by simp
  qed
qed

lemma origins_repo: "repo_at w d = Some rs \<Longrightarrow> origins w d = filter (\<lambda>r. fst r = ''origin'') rs"
  by (simp add: origins_def remotes_at_def)

lemma bnd_InrE:
  assumes "bnd m k w = (Inr b, w')"
  obtains a w1 where "m w = (Inr a, w1)" and "k a w1 = (Inr b, w')"
proof (cases "m w")
  case (Pair r w1)
  with assms show ?thesis
    by (cases r) (auto simp: bnd_def intro: that)
qed

lemma reconcile_remote_probe:
  assumes "git_checkIsRepo d w = (r, wa)"
  shows "reconcile_remote d url w =
     (if \<not> (case r of Inl e \<Rightarrow> False | Inr b \<Rightarrow> b)
      then bnd (git_init d) (\<lambda>_. git_addRemote d ''origin'' url) wa
      else bnd (git_getRemotes d) (\<lambda>remotes.
             if \<not> list_ex (\<lambda>r. fst r = ''origin'') remotes
             then git_addRemote d ''origin'' url
             else
               (case find (\<lambda>r. fst r = ''origin'') remotes of
                  Some currentOrigin \<Rightarrow>
                    if snd currentOrigin \<noteq> url
                    then bnd (git_removeRemote d ''origin'')
                           (\<lambda>_. git_addRemote d ''origin'' url)
                    else ret ()
                | None \<Rightarrow> ret ())) wa)"
  using assms by (simp add: reconcile_remote_def)

lemma reconcile_remote_origin:
  assumes wf: "distinct (map fst (remotes_at w d))"
    and ok: "reconcile_remote d url w = (Inr u, w1)"
  shows "origins w1 d = [(''origin'', url)]"
proof -
  obtain r wa where probe: "git_checkIsRepo d w = (r, wa)"
    by (cases "git_checkIsRepo d w")
  note fa = git_checkIsRepo_ok(1) [OF probe]
  define isRepo where "isRepo = (case r of Inl e \<Rightarrow> False | Inr b \<Rightarrow> b)"
  note unf = ok [unfolded reconcile_remote_probe [OF probe] isRepo_def [symmetric]]
  show ?thesis
  proof (cases isRepo)
    case False
    with unf have "bnd (git_init d) (\<lambda>_. git_addRemote d ''origin'' url) wa = (Inr u, w1)"
      by simp
    then obtain x wb where a: "git_addRemote d ''origin'' url wb = (Inr u, w1)"
      by (rule bnd_InrE)
    from git_addRemote_ok [OF a] show ?thesis
      by (auto simp: origins_repo has_remote_filter)
  next
    case True
    with unf obtain rs wb where g: "git_getRemotes d wa = (Inr rs, wb)"
      and rest: "(if \<not> list_ex (\<lambda>r. fst r = ''origin'') rs
           then git_addRemote d ''origin'' url
           else (case find (\<lambda>r. fst r = ''origin'') rs of
                   Some currentOrigin \<Rightarrow>
                     if snd currentOrigin \<noteq> url
                     then bnd (git_removeRemote d ''origin'') (\<lambda>_. git_addRemote d ''origin'' url)
                     else ret ()
                 | None \<Rightarrow> ret ())) wb = (Inr u, w1)"
      by (auto elim: bnd_InrE)
    from git_getRemotes_ok [OF g] fa repo_at_files [OF fa, of d]
    have rs: "repo_at w d = Some rs" and fb: "files wb = files w"
      by simp_all
    show ?thesis
    proof (cases "list_ex (\<lambda>r. fst r = ''origin'') rs")
      case False
      with rest have a: "git_addRemote d ''origin'' url wb = (Inr u, w1)" by simp
      from git_addRemote_ok [OF a] show ?thesis
        by (auto simp: origins_repo has_remote_filter)
    next
      case ex: True
      then obtain cur where cur: "find (\<lambda>r. fst r = ''origin'') rs = Some cur"
        by (cases "find (\<lambda>r. fst r = ''origin'') rs") (auto simp: find_None_iff list_ex_iff)
      from wf rs have "distinct (map fst rs)"
        by (simp add: remotes_at_def)
      from find_distinct_filter [OF this cur]
      have one: "filter (\<lambda>r. fst r = ''origin'') rs = [cur]" .
      then have "cur \<in> set (filter (\<lambda>r. fst r = ''origin'') rs)" by simp
      then have name: "fst cur = ''origin''" by simp
      show ?thesis
      proof (cases "snd cur = url")
        case True
        with rest ex cur have "w1 = wb" by (simp add: ret_def)
        with rs repo_at_files [OF fb, of d] have "repo_at w1 d = Some rs" by simp
        with one name True show ?thesis
          by (simp add: origins_repo prod_eq_iff)
      next
        case False
        with rest ex cur
        have "bnd (git_removeRemote d ''origin'') (\<lambda>_. git_addRemote d ''origin'' url) wb = (Inr u, w1)"
          by simp
        then obtain x wc where a: "git_addRemote d ''origin'' url wc = (Inr u, w1)"
          by (rule bnd_InrE)
        from git_addRemote_ok [OF a] show ?thesis
          by (auto simp: origins_repo has_remote_filter)
      qed
    qed
  qed
qed

lemma origins_repoE:
  assumes "origins w d = [(''origin'', url)]"
  obtains rs where "repo_at w d = Some rs" and "filter (\<lambda>r. fst r = ''origin'') rs = [(''origin'', url)]"
  using assms
  by (cases "repo_at w d") (auto simp: origins_def remotes_at_def)

lemma reconcile_remote_again_files:
  assumes o: "origins w d = [(''origin'', url)]"
  shows "files (snd (reconcile_remote d url w)) = files w"
proof -
  from o obtain rs where rs: "repo_at w d = Some rs"
    and one: "filter (\<lambda>r. fst r = ''origin'') rs = [(''origin'', url)]"
    by (rule origins_repoE)
  from one have has: "has_remote ''origin'' rs"
    by (simp add: has_remote_filter)
  obtain r wa where probe: "git_checkIsRepo d w = (r, wa)"
    by (cases "git_checkIsRepo d w")
  note fa = git_checkIsRepo_ok(1) [OF probe]
  from rs repo_at_files [OF fa, of d] have rsa: "repo_at wa d = Some rs" by simp
  note unf = reconcile_remote_probe [OF probe, of url]
  show ?thesis
  proof (cases "case r of Inl e \<Rightarrow> False | Inr b \<Rightarrow> b")
    case False
    obtain ri wb where i: "git_init d wa = (ri, wb)"
      by (cases "git_init d wa")
    note fb = git_init_files [OF i rsa]
    from rsa repo_at_files [OF fb, of d] have rsb: "repo_at wb d = Some rs" by simp
    show ?thesis
    proof (cases ri)
      case (Inl e)
      with unf False i fa fb show ?thesis by (simp add: bnd_def)
    next
      case (Inr x)
      obtain ra wc where a: "git_addRemote d ''origin'' url wb = (ra, wc)"
        by (cases "git_addRemote d ''origin'' url wb")
      from git_addRemote_present [OF a rsb has] have "files wc = files wb" .
      with unf False i Inr a fa fb show ?thesis by (simp add: bnd_def)
    qed
  next
    case True
    obtain rg wb where g: "git_getRemotes d wa = (rg, wb)"
      by (cases "git_getRemotes d wa")
    note fb = git_getRemotes_files [OF g]
    show ?thesis
    proof (cases rg)
      case (Inl e)
      with unf True g fa fb show ?thesis by (simp add: bnd_def)
    next
      case (Inr rs')
      with git_getRemotes_ok(1) [of d wa rs' wb] g rsa have same: "rs' = rs" by simp
      from has have ex: "list_ex (\<lambda>r. fst r = ''origin'') rs"
        by (simp add: has_remote_def)
      from one have f: "find (\<lambda>r. fst r = ''origin'') rs = Some (''origin'', url)"
        by (simp add: find_first_filter)
      from unf True g Inr same ex f fa fb show ?thesis
        by (simp add: bnd_def ret_def)
    qed
  qed
qed

lemma reconcile_remote_again_quiet:
  assumes o: "origins w d = [(''origin'', url)]"
    and q1: "fault w (length (trace w)) (GitCheckIsRepo d) = None"
    and q2: "fault w (Suc (length (trace w))) (GitGetRemotes d) = None"
  shows "reconcile_remote d url w =
           (Inr (), w\<lparr>trace := trace w @
               [(GitCheckIsRepo d, None), (GitGetRemotes d, None)]\<rparr>)"
proof -
  from o obtain rs where rs: "repo_at w d = Some rs"
    and one: "filter (\<lambda>r. fst r = ''origin'') rs = [(''origin'', url)]"
    by (rule origins_repoE)
  from one have ex: "list_ex (\<lambda>r. fst r = ''origin'') rs"
    by (simp add: has_remote_filter [unfolded has_remote_def])
  from one have f: "find (\<lambda>r. fst r = ''origin'') rs = Some (''origin'', url)"
    by (simp add: find_first_filter)
  define wa where "wa = w\<lparr>trace := trace w @ [(GitCheckIsRepo d, None)]\<rparr>"
  from q1 rs have probe: "git_checkIsRepo d w = (Inr True, wa)"
    by (simp add: git_checkIsRepo_def invoke_def wa_def)
  have rsa: "repo_at wa d = Some rs"
    using rs by (simp add: repo_at_def wa_def)
  from q2 rsa have g: "git_getRemotes d wa =
      (Inr rs, w\<lparr>trace := trace w @
          [(GitCheckIsRepo d, None), (GitGetRemotes d, None)]\<rparr>)"
    by (simp add: git_getRemotes_def invoke_def wa_def)
  from reconcile_remote_probe [OF probe, of url] g ex f show ?thesis
    by (simp add: bnd_def ret_def)
qed

lemma reconcile_remote_succeeds:
  assumes dir: "files w d = Some (Dir m)"
    and quiet: "\<forall>n c. fault w n c = None"
  shows "\<exists>w1. reconcile_remote d url w = (Inr (), w1)"
proof (cases m)
  case None
  with dir quiet show ?thesis
    by (simp add: reconcile_remote_def git_checkIsRepo_def git_init_def git_addRemote_def
        invoke_def repo_at_def bnd_def has_remote_def)
next
  case (Some md)
  define rs where "rs = fst md"
  with Some have m: "m = Some (rs, snd md)"
    by simp
  show ?thesis
  proof (cases "find (\<lambda>r. fst r = ''origin'') rs")
    case None
    then have "\<not> list_ex (\<lambda>r. fst r = ''origin'') rs"
      by (auto simp: find_None_iff list_ex_iff)
    with dir quiet m show ?thesis
      by (simp add: reconcile_remote_def git_checkIsRepo_def git_getRemotes_def git_addRemote_def
          invoke_def repo_at_def bnd_def has_remote_def)
  next
    case (Some cur)
    have ex: "list_ex (\<lambda>r. fst r = ''origin'') rs"
    proof (rule ccontr)
      assume "\<not> list_ex (\<lambda>r. fst r = ''origin'') rs"
      then have "find (\<lambda>r. fst r = ''origin'') rs = None"
        by (auto simp: find_None_iff list_ex_iff)
      with Some show False by simp
    qed
    have gone: "\<not> list_ex (\<lambda>r. fst r = ''origin'') (filter (\<lambda>r. fst r \<noteq> ''origin'') rs)"
      by (simp add: list_ex_iff)
    from dir quiet m Some ex gone show ?thesis
      by (simp add: reconcile_remote_def git_checkIsRepo_def git_getRemotes_def git_addRemote_def
          git_removeRemote_def invoke_def repo_at_def bnd_def ret_def has_remote_def)
  qed
qed

text \<open>C3.  \<open>reconcile_remote\<close> is the code of lines 214-236.  The working copy at \<open>d\<close>
  may be in any prior state: no metadata, metadata without \<^verbatim>\<open>origin\<close>, an
  \<^verbatim>\<open>origin\<close> with another URL, or the desired one (git keeps the names of the remotes
  distinct).  When the directory exists and no call fails for an outside reason, the
  reconciliation succeeds.  Whenever it succeeds, the working copy has exactly one remote
  named \<^verbatim>\<open>origin\<close>, with the desired URL; a second reconciliation with the same URL
  leaves the file system and the metadata as they are, and when its two probes answer it
  consists of these two read-only calls and succeeds.\<close>

theorem reconcile_remote_converges:
  assumes wf: "distinct (map fst (remotes_at w d))"
  shows "((\<exists>m. files w d = Some (Dir m)) \<and> (\<forall>n c. fault w n c = None)
            \<longrightarrow> (\<exists>w1. reconcile_remote d url w = (Inr (), w1))) \<and>
         (\<forall>u w1. reconcile_remote d url w = (Inr u, w1) \<longrightarrow>
            origins w1 d = [(''origin'', url)] \<and>
            files (snd (reconcile_remote d url w1)) = files w1 \<and>
            (fault w1 (length (trace w1)) (GitCheckIsRepo d) = None \<and>
             fault w1 (Suc (length (trace w1))) (GitGetRemotes d) = None \<longrightarrow>
               reconcile_remote d url w1 =
                 (Inr (), w1\<lparr>trace := trace w1 @
                     [(GitCheckIsRepo d, None), (GitGetRemotes d, None)]\<rparr>)))"
proof (intro conjI allI impI)
  assume "(\<exists>m. files w d = Some (Dir m)) \<and> (\<forall>n c. fault w n c = None)"
  then show "\<exists>w1. reconcile_remote d url w = (Inr (), w1)"
    by (auto intro: reconcile_remote_succeeds)
next
  fix u w1
  assume ok: "reconcile_remote d url w = (Inr u, w1)"
  note o = reconcile_remote_origin [OF wf ok]
  show "origins w1 d = [(''origin'', url)]" by (rule o)
  show "files (snd (reconcile_remote d url w1)) = files w1"
    by (rule reconcile_remote_again_files [OF o])
  assume "fault w1 (length (trace w1)) (GitCheckIsRepo d) = None \<and>
          fault w1 (Suc (length (trace w1))) (GitGetRemotes d) = None"
  then show "reconcile_remote d url w1 =
      (Inr (), w1\<lparr>trace := trace w1 @
          [(GitCheckIsRepo d, None), (GitGetRemotes d, None)]\<rparr>)"
    by (auto intro: reconcile_remote_again_quiet [OF o])
qed

theorem reconcile_remote_converges_witness:
  "distinct (map fst (remotes_at stale_world ''/proj'')) \<and>
   files stale_world ''/proj''
     = Some (Dir (Some ([(''upstream'', ''git@github.com:other/lib.git''),
                        (''origin'', ''https://github.com/acct/app.git'')], []))) \<and>
   reconcile_remote ''/proj'' ''git@github.com:acct/app.git'' stale_world
     = (Inr (), reconciled stale_world) \<and>
   trace (reconciled stale_world)
     = trace stale_world @ [(GitCheckIsRepo ''/proj'', None), (GitGetRemotes ''/proj'', None),
        (GitRemoveRemote ''/proj'' ''origin'', None),
        (GitAddRemote ''/proj'' ''origin'' ''git@github.com:acct/app.git'', None)] \<and>
   origins (reconciled stale_world) ''/proj'' = [(''origin'', ''git@github.com:acct/app.git'')] \<and>
   files (reconciled (reconciled stale_world)) = files (reconciled stale_world) \<and>
   trace (reconciled (reconciled stale_world))
     = trace (reconciled stale_world) @
         [(GitCheckIsRepo ''/proj'', None), (GitGetRemotes ''/proj'', None)]"
proof -
  have wf: "distinct (map fst (remotes_at stale_world ''/proj''))"
    by code_simp
  have dir: "files stale_world ''/proj''
     = Some (Dir (Some ([(''upstream'', ''git@github.com:other/lib.git''),
                        (''origin'', ''https://github.com/acct/app.git'')], [])))"
    by code_simp
  have quiet: "\<forall>n c. fault stale_world n c = None"
    by (simp add: stale_world_def world_of_def no_fault_def)
  note conv = reconcile_remote_converges [OF wf, of "''git@github.com:acct/app.git''"]
  from conv [THEN conjunct1] dir quiet
  have "\<exists>w1. reconcile_remote ''/proj'' ''git@github.com:acct/app.git'' stale_world = (Inr (), w1)"
    by blast
  then have run: "reconcile_remote ''/proj'' ''git@github.com:acct/app.git'' stale_world
     = (Inr (), reconciled stale_world)"
    by (auto simp: reconciled_def)
  have t: "trace (reconciled stale_world)
     = trace stale_world @ [(GitCheckIsRepo ''/proj'', None), (GitGetRemotes ''/proj'', None),
        (GitRemoveRemote ''/proj'' ''origin'', None),
        (GitAddRemote ''/proj'' ''origin'' ''git@github.com:acct/app.git'', None)]"
    by code_simp
  note again = conv [THEN conjunct2, rule_format, OF run]
  have one: "origins (reconciled stale_world) ''/proj'' = [(''origin'', ''git@github.com:acct/app.git'')]"
    by (rule again [THEN conjunct1])
  have same: "files (reconciled (reconciled stale_world)) = files (reconciled stale_world)"
    unfolding reconciled_def [of "reconciled stale_world"]
    by (rule again [THEN conjunct2, THEN conjunct1])
  have q1: "fault (reconciled stale_world) (length (trace (reconciled stale_world)))
              (GitCheckIsRepo ''/proj'') = None"
    by code_simp
  have q2: "fault (reconciled stale_world) (Suc (length (trace (reconciled stale_world))))
              (GitGetRemotes ''/proj'') = None"
    by code_simp
  from again [THEN conjunct2, THEN conjunct2, rule_format, OF conjI [OF q1 q2]]
  have t2: "trace (reconciled (reconciled stale_world))
     = trace (reconciled stale_world) @
         [(GitCheckIsRepo ''/proj'', None), (GitGetRemotes ''/proj'', None)]"
    by (simp add: reconciled_def [of "reconciled stale_world"])
  from wf dir run t one same t2 show ?thesis
    by (intro conjI)
qed

section \<open>Upload: the helper script\<close>

subsection \<open>What the git commands of an upload leave alone\<close>

text \<open>All of them but the checkout of a branch keep a file that is there, and those that
  follow the checkout change no entry but the one of the working copy itself.\<close>

lemma invoke_file_kept:
  assumes "files w p = Some (File mode)"
    and "\<And>a fs. sem w = Inr (a, fs) \<Longrightarrow> fs p = Some (File mode)"
  shows "files (snd (invoke c sem w)) p = Some (File mode)"
  using assms
  by (auto simp: invoke_def split: option.splits sum.splits)

lemma git_file_kept:
  assumes "files w p = Some (File mode)"
  shows "files (snd (git_checkIsRepo d w)) p = Some (File mode)"
    and "files (snd (git_init d w)) p = Some (File mode)"
    and "files (snd (git_addRemote d n url w)) p = Some (File mode)"
    and "files (snd (git_getRemotes d w)) p = Some (File mode)"
    and "files (snd (git_removeRemote d n w)) p = Some (File mode)"
    and "files (snd (git_checkoutNew d b w)) p = Some (File mode)"
    and "files (snd (git_add d ps w)) p = Some (File mode)"
    and "files (snd (git_commit d msg w)) p = Some (File mode)"
    and "files (snd (git_branch_show_current d w)) p = Some (File mode)"
    and "files (snd (git_push d n b u w)) p = Some (File mode)"
  unfolding git_checkIsRepo_def git_init_def git_addRemote_def git_getRemotes_def
    git_removeRemote_def git_checkoutNew_def git_add_def git_commit_def
    git_branch_show_current_def git_push_def
  using assms
  by (rule invoke_file_kept;
      auto simp: repo_at_def in_repo_def with_remote_def
           split: option.splits node.splits if_splits)+

lemma bnd_file_kept:
  assumes "files w p = Some (File mode)"
    and "\<And>w. files w p = Some (File mode) \<Longrightarrow> files (snd (f w)) p = Some (File mode)"
    and "\<And>a w. files w p = Some (File mode) \<Longrightarrow> files (snd (k a w)) p = Some (File mode)"
  shows "files (snd (bnd f k w)) p = Some (File mode)"
proof (cases "f w")
  case (Pair r w1)
  with assms(2) [OF assms(1)] have "files w1 p = Some (File mode)" by simp
  with Pair assms(3) show ?thesis
    by (cases r) (simp_all add: bnd_def)
qed

lemma ret_file_kept: "files w p = Some (File mode) \<Longrightarrow> files (snd (ret a w)) p = Some (File mode)"
  by (simp add: ret_def)

lemma reconcile_remote_file_kept:
  assumes "files w p = Some (File mode)"
  shows "files (snd (reconcile_remote d url w)) p = Some (File mode)"
proof -
  obtain r wa where probe: "git_checkIsRepo d w = (r, wa)"
    by (cases "git_checkIsRepo d w")
  from git_file_kept(1) [OF assms, of d] probe have fa: "files wa p = Some (File mode)"
    by simp
  show ?thesis
    unfolding reconcile_remote_probe [OF probe]
    using fa
    by (auto intro!: bnd_file_kept git_file_kept ret_file_kept split: option.splits)
qed

lemma push_branch_file_kept:
  assumes "files w p = Some (File mode)"
  shows "files (snd (push_branch d b w)) p = Some (File mode)"
  unfolding push_branch_def
proof (rule bnd_file_kept [OF assms])
  fix w :: world
  assume "files w p = Some (File mode)"
  then show "files (snd (git_branch_show_current d w)) p = Some (File mode)"
    by (rule git_file_kept)
next
  fix current and w :: world
  assume a: "files w p = Some (File mode)"
  obtain r w1 where f: "git_push d ''origin'' b True w = (r, w1)"
    by (cases "git_push d ''origin'' b True w")
  from git_file_kept(10) [OF a, of d "''origin''" b True] f have f1: "files w1 p = Some (File mode)"
    by simp
  from f f1 a git_file_kept(10) [OF f1, of d "''origin''" b False]
    git_file_kept(10) [OF a, of d "''origin''" b False]
  show "files (snd ((if current = b
          then (\<lambda>w. case git_push d ''origin'' b True w of
                  (Inl pushError, w1) \<Rightarrow> git_push d ''origin'' b False w1
                | (Inr u, w1) \<Rightarrow> (Inr (), w1))
          else git_push d ''origin'' b False) w)) p = Some (File mode)"
    by (cases r) simp_all
qed

lemma upload_sync_file_kept:
  assumes "files w p = Some (File mode)"
  shows "files (snd (upload_sync cfg user src repo b msg w)) p = Some (File mode)"
  unfolding upload_sync_def stage_and_commit_def
  using assms
  by (intro bnd_file_kept git_file_kept push_branch_file_kept ret_file_kept)

lemma invoke_frame:
  assumes "\<And>a fs. sem w = Inr (a, fs) \<Longrightarrow> fs q = files w q"
  shows "files (snd (invoke c sem w)) q = files w q"
  using assms
  by (auto simp: invoke_def split: option.splits sum.splits)

lemma git_frame:
  assumes "q \<noteq> d"
  shows "files (snd (git_add d ps w)) q = files w q"
    and "files (snd (git_commit d msg w)) q = files w q"
    and "files (snd (git_branch_show_current d w)) q = files w q"
    and "files (snd (git_push d n b u w)) q = files w q"
  unfolding git_add_def git_commit_def git_branch_show_current_def git_push_def
  by (rule invoke_frame;
      auto simp: in_repo_def with_remote_def assms split: option.splits if_splits)+

lemma bnd_frame:
  assumes "\<And>w. files (snd (f w)) q = files w q"
    and "\<And>a w. files (snd (k a w)) q = files w q"
  shows "files (snd (bnd f k w)) q = files w q"
proof (cases "f w")
  case (Pair r w1)
  with assms(1) [of w] have "files w1 q = files w q" by simp
  with Pair assms(2) show ?thesis
    by (cases r) (simp_all add: bnd_def)
qed

lemma push_branch_frame:
  assumes "q \<noteq> d"
  shows "files (snd (push_branch d b w)) q = files w q"
  unfolding push_branch_def
proof (rule bnd_frame)
  fix w :: world
  show "files (snd (git_branch_show_current d w)) q = files w q"
    by (rule git_frame [OF assms])
next
  fix current and w :: world
  obtain r w1 where f: "git_push d ''origin'' b True w = (r, w1)"
    by (cases "git_push d ''origin'' b True w")
  from git_frame(4) [OF assms, of "''origin''" b True w] f have f1: "files w1 q = files w q"
    by simp
  from f f1 git_frame(4) [OF assms, of "''origin''" b False w1]
    git_frame(4) [OF assms, of "''origin''" b False w]
  show "files (snd ((if current = b
          then (\<lambda>w. case git_push d ''origin'' b True w of
                  (Inl pushError, w1) \<Rightarrow> git_push d ''origin'' b False w1
                | (Inr u, w1) \<Rightarrow> (Inr (), w1))
          else git_push d ''origin'' b False) w)) q = files w q"
    by (cases r) simp_all
qed

lemma upload_sync_frame:
  assumes "q \<noteq> d"
  shows "files (snd (upload_sync cfg user d repo b msg w)) q = files w q"
  unfolding upload_sync_def stage_and_commit_def
  by (intro bnd_frame git_frame [OF assms] push_branch_frame [OF assms])
     (simp add: ret_def)

lemma git_checkout_result:
  assumes "git_checkout d b w = (r, w1)"
  shows "r = Inl m \<Longrightarrow> files w1 = files w"
    and "r = Inr u \<Longrightarrow> \<exists>rs. repo_at w d = Some rs"
  using assms
  by (auto simp: git_checkout_def invoke_def split: option.splits sum.splits)

lemma reconcile_remote_extends: "extends w (snd (reconcile_remote d url w))"
proof -
  obtain r wa where probe: "git_checkIsRepo d w = (r, wa)"
    by (cases "git_checkIsRepo d w")
  from git_extends(1) [of w d] probe have e: "extends w wa" by simp
  have "extends wa (snd (reconcile_remote d url w))"
    unfolding reconcile_remote_probe [OF probe]
    by (auto intro!: bnd_extends git_extends ret_extends split: option.splits)
  with e show ?thesis by (rule extends_trans)
qed

lemma checkout_branch_extends: "extends w (snd (checkout_branch d b w))"
proof -
  obtain r w1 where f: "git_checkout d b w = (r, w1)"
    by (cases "git_checkout d b w")
  from git_extends(6) [of w d b] f have e: "extends w w1" by simp
  with f git_extends(7) [of w1 d b] show ?thesis
    by (cases r) (auto simp: checkout_branch_def intro: extends_trans)
qed

lemma upload_sync_extends: "extends w (snd (upload_sync cfg user src repo b msg w))"
  unfolding upload_sync_def stage_and_commit_def
  by (intro bnd_extends git_extends push_branch_extends ret_extends)

lemma snd_upload_catch: "snd (upload_catch rw) = snd rw"
  by (cases rw) (simp add: upload_catch_def split: sum.splits)

lemma validate_source_trace:
  assumes "validate_source cfg src w = (None, w1)"
  shows "trace w1 = trace w @
      [(FsStat src, None), (FsStat (path_join cfg src ''package.json''), None)]"
proof -
  obtain st wa where a: "fs_stat src w = (st, wa)"
    by (cases "fs_stat src w")
  obtain st2 wb where b: "fs_stat (path_join cfg src ''package.json'') wa = (st2, wb)"
    by (cases "fs_stat (path_join cfg src ''package.json'') wa")
  from assms a b have ok: "stat_isDirectory st" "stat_ok st2" "w1 = wb"
    by (auto simp: validate_source_def split: if_splits)
  from ok have "outcome st = None" "outcome st2 = None"
    by (auto simp: stat_isDirectory_def stat_ok_def outcome_def split: sum.splits)
  with fs_stat_trace [OF a] fs_stat_trace [OF b] ok show ?thesis
    by simp
qed

lemma invoke_failed:
  assumes "invoke c sem w = (r, w')"
  shows "r = Inl m \<Longrightarrow> files w' = files w"
  using assms
  by (auto simp: invoke_def split: option.splits sum.splits)

lemma fs_stat_same:
  assumes "fs_stat p w = (r, w')"
  shows "files w' = files w"
  using assms
  by (auto simp: fs_stat_def invoke_def split: option.splits)

lemma validate_source_same:
  assumes "validate_source cfg src w = (r, w1)"
  shows "files w1 = files w"
proof -
  obtain st wa where a: "fs_stat src w = (st, wa)"
    by (cases "fs_stat src w")
  obtain st2 wb where b: "fs_stat (path_join cfg src ''package.json'') wa = (st2, wb)"
    by (cases "fs_stat (path_join cfg src ''package.json'') wa")
  from assms a b have "w1 = wa \<or> w1 = wb"
    by (auto simp: validate_source_def split: if_splits)
  with fs_stat_same [OF a] fs_stat_same [OF b]
  show "files w1 = files w"
    by auto
qed

text \<open>C10 (as amended).  An upload whose source path passes validation and in which
  \<^verbatim>\<open>stat\<close> does not find \<^verbatim>\<open>run-vite-project.sh\<close> copies the template there and
  then makes the copy executable (mode 0o755 is 493), before any git call.  If the copy
  fails, that is the end: the file system is as it was and the caller receives status
  500 with the copy's error; if the change of mode fails, the caller receives its error
  in the same way.  In both cases there has been no git call.  If both succeed, the
  script is there, executable, after the first five calls of the handler, which are all
  on the file system, and every git call comes later; it is still there when the remote
  has been dealt with.  When the handler has answered, whether the upload has succeeded
  or failed, the script is still there, executable, unless the checkout of the requested
  branch has succeeded: then what is at the path of the script in the end is what this
  checkout has left there.\<close>

theorem run_script_copied_before_git:
  assumes req: "upload_request cfg req user src repo msg"
    and v: "validate_source cfg src w = (None, w1)"
    and s: "fs_stat (path_join cfg src ''run-vite-project.sh'') w1 = (Inl e, w2)"
    and cp: "fs_copyFile (RUN_VITE_PROJECT_SCRIPT_TEMPLATE cfg)
               (path_join cfg src ''run-vite-project.sh'') w2 = (rc, w3)"
    and ch: "fs_chmod (path_join cfg src ''run-vite-project.sh'') 493 w3 = (rh, w4)"
    and rec: "reconcile_remote src (remoteUrl_of user repo) w4 = (rr, w5)"
    and co: "git_checkout src (actualBranchName_of req) w5 = (rk, w6)"
    and run: "upload_vite_project cfg req w = (sent, w')"
  shows "(\<forall>m. rc = Inl m \<longrightarrow>
            sent = Response 500 [(''message'', ''Failed to upload Vite project: '' @ m)] \<and>
            trace w' =
              trace w @ [(FsStat src, None), (FsStat (path_join cfg src ''package.json''), None),
                (FsStat (path_join cfg src ''run-vite-project.sh''), Some e),
                (FsCopyFile (RUN_VITE_PROJECT_SCRIPT_TEMPLATE cfg)
                   (path_join cfg src ''run-vite-project.sh''), Some m)] \<and>
            files w' = files w) \<and>
         (\<forall>m. rc = Inr () \<and> rh = Inl m \<longrightarrow>
            sent = Response 500 [(''message'', ''Failed to upload Vite project: '' @ m)] \<and>
            trace w' =
              trace w @ [(FsStat src, None), (FsStat (path_join cfg src ''package.json''), None),
                (FsStat (path_join cfg src ''run-vite-project.sh''), Some e),
                (FsCopyFile (RUN_VITE_PROJECT_SCRIPT_TEMPLATE cfg)
                   (path_join cfg src ''run-vite-project.sh''), None),
                (FsChmod (path_join cfg src ''run-vite-project.sh'') 493, Some m)]) \<and>
         (rc = Inr () \<and> rh = Inr () \<longrightarrow>
            trace w4 =
              trace w @ [(FsStat src, None), (FsStat (path_join cfg src ''package.json''), None),
                (FsStat (path_join cfg src ''run-vite-project.sh''), Some e),
                (FsCopyFile (RUN_VITE_PROJECT_SCRIPT_TEMPLATE cfg)
                   (path_join cfg src ''run-vite-project.sh''), None),
                (FsChmod (path_join cfg src ''run-vite-project.sh'') 493, None)] \<and>
            files w4 (path_join cfg src ''run-vite-project.sh'') = Some (File 493) \<and>
            extends w4 w' \<and>
            files w5 (path_join cfg src ''run-vite-project.sh'') = Some (File 493) \<and>
            files w' (path_join cfg src ''run-vite-project.sh'') =
              (if rr = Inr () \<and> rk = Inr ()
               then files w6 (path_join cfg src ''run-vite-project.sh'')
               else Some (File 493)))"
proof -
  define script where "script = path_join cfg src ''run-vite-project.sh''"
  define tpl where "tpl = RUN_VITE_PROJECT_SCRIPT_TEMPLATE cfg"
  define b where "b = actualBranchName_of req"
  define url where "url = remoteUrl_of user repo"
  define sync where "sync = (\<lambda>_ :: unit. upload_sync cfg user src repo b msg)"
  define k where "k = bnd (bnd (reconcile_remote src url) (\<lambda>_. checkout_branch src b)) sync"
  note s' = s [folded script_def]
  note cp' = cp [folded script_def tpl_def]
  note ch' = ch [folded script_def]
  note rec' = rec [folded url_def]
  note co' = co [folded b_def]
  have t2: "trace w2 = trace w @ [(FsStat src, None),
      (FsStat (path_join cfg src ''package.json''), None), (FsStat script, Some e)]"
    using validate_source_trace [OF v] fs_stat_trace [OF s']
    by (simp add: outcome_def)
  have t3: "trace w3 = trace w2 @ [(FsCopyFile tpl script, outcome rc)]"
    by (rule fs_copyFile_trace [OF cp'])
  have t4: "trace w4 = trace w3 @ [(FsChmod script 493, outcome rh)]"
    by (rule fs_chmod_trace [OF ch'])
  have f2: "files w2 = files w"
    using validate_source_same [OF v] fs_stat_same [OF s'] by simp
  have body: "upload_try cfg user src repo b msg w =
      bnd (bnd (fs_copyFile tpl script) (\<lambda>_. fs_chmod script 493)) (\<lambda>_. k) w2"
    using v s'
    by (simp add: upload_try_def upload_prepare_def ensure_run_script_def stat_ok_def bnd_def
        k_def sync_def url_def script_def tpl_def split: sum.splits prod.splits)
  note unf = upload_request_unfold [OF req, of w, folded b_def, unfolded body]
  have copy_failed: "sent = Response 500 [(''message'', ''Failed to upload Vite project: '' @ m)] \<and>
      trace w' = trace w @ [(FsStat src, None),
        (FsStat (path_join cfg src ''package.json''), None), (FsStat script, Some e),
        (FsCopyFile tpl script, Some m)] \<and>
      files w' = files w"
    if "rc = Inl m" for m
  proof -
    from unf run cp' that
    have "sent = Response 500 [(''message'', ''Failed to upload Vite project: '' @ m)]"
      and "w' = w3"
      by (simp_all add: bnd_def upload_catch_def)
    moreover from that invoke_failed [OF cp' [unfolded fs_copyFile_def]] f2
    have "files w3 = files w" by simp
    ultimately show ?thesis
      using t2 t3 that by (simp add: outcome_def)
  qed
  have chmod_failed: "sent = Response 500 [(''message'', ''Failed to upload Vite project: '' @ m)] \<and>
      trace w' = trace w @ [(FsStat src, None),
        (FsStat (path_join cfg src ''package.json''), None), (FsStat script, Some e),
        (FsCopyFile tpl script, None), (FsChmod script 493, Some m)]"
    if "rc = Inr () \<and> rh = Inl m" for m
  proof -
    from unf run cp' ch' that
    have "sent = Response 500 [(''message'', ''Failed to upload Vite project: '' @ m)]"
      and "w' = w4"
      by (simp_all add: bnd_def upload_catch_def)
    then show ?thesis
      using t2 t3 t4 that by (simp add: outcome_def)
  qed
  have copied: "trace w4 = trace w @ [(FsStat src, None),
        (FsStat (path_join cfg src ''package.json''), None), (FsStat script, Some e),
        (FsCopyFile tpl script, None), (FsChmod script 493, None)] \<and>
      files w4 script = Some (File 493) \<and>
      extends w4 w' \<and>
      files w5 script = Some (File 493) \<and>
      files w' script = (if rr = Inr () \<and> rk = Inr () then files w6 script else Some (File 493))"
    if ok: "rc = Inr () \<and> rh = Inr ()"
  proof -
    from ok cp' obtain mode where "files w3 script = Some (File mode)"
      by (auto simp: fs_copyFile_def invoke_def split: option.splits node.splits)
    with ok ch' have made: "files w4 script = Some (File 493)"
      by (auto simp: fs_chmod_def invoke_def split: option.splits node.splits)
    from unf run cp' ch' ok have "(sent, w') = upload_catch (k w4)"
      by (simp add: bnd_def)
    then have "w' = snd (upload_catch (k w4))"
      by (metis snd_conv)
    then have w': "w' = snd (k w4)"
      by (simp add: snd_upload_catch)
    have e: "extends w4 (snd (k w4))"
      unfolding k_def sync_def
      by (intro bnd_extends reconcile_remote_extends checkout_branch_extends upload_sync_extends)
    from reconcile_remote_file_kept [OF made, of src url] rec'
    have f5: "files w5 script = Some (File 493)"
      by simp
    have final: "files (snd (k w4)) script =
        (if rr = Inr () \<and> rk = Inr () then files w6 script else Some (File 493))"
    proof (cases rr)
      case (Inl m)
      with rec' have "k w4 = (Inl m, w5)"
        by (simp add: k_def bnd_def)
      with f5 Inl show ?thesis by simp
    next
      case (Inr u)
      with rec' have k5: "k w4 = bnd (checkout_branch src b) sync w5"
        by (simp add: k_def bnd_def)
      show ?thesis
      proof (cases rk)
        case rk: (Inr u2)
        from git_checkout_result(2) [OF co' rk] f5 have neq: "script \<noteq> src"
          by (auto simp: repo_at_def)
        from co' rk have "checkout_branch src b w5 = (Inr (), w6)"
          by (simp add: checkout_branch_def)
        with k5 have "k w4 = upload_sync cfg user src repo b msg w6"
          by (simp add: bnd_def sync_def)
        with upload_sync_frame [OF neq, of cfg user repo b msg w6] Inr rk show ?thesis
          by simp
      next
        case rk: (Inl m)
        from git_checkout_result(1) [OF co' rk] f5 have f6: "files w6 script = Some (File 493)"
          by simp
        from co' rk have cb: "checkout_branch src b w5 =
            (if branch_not_found m then git_checkoutNew src b w6 else (Inl m, w6))"
          by (simp add: checkout_branch_def)
        have cbk: "files (snd (checkout_branch src b w5)) script = Some (File 493)"
          unfolding cb using f6 git_file_kept(6) [OF f6, of src b] by simp
        have "files (snd (bnd (\<lambda>x. checkout_branch src b w5) sync w5)) script = Some (File 493)"
          unfolding sync_def
          by (intro bnd_file_kept upload_sync_file_kept) (simp_all add: f5 cbk)
        moreover have "bnd (\<lambda>x. checkout_branch src b w5) sync w5 = k w4"
          unfolding k5 by (simp add: bnd_def)
        ultimately show ?thesis
          using rk by simp
      qed
    qed
    with t2 t3 t4 ok made e w' f5 show ?thesis
      by (simp add: outcome_def)
  qed
  from copy_failed chmod_failed copied show ?thesis
    unfolding script_def tpl_def by blast
qed

text \<open>C10 as stated fails, in two ways.  In the first world the template is missing: the
  copy fails, nothing is copied and the upload ends with status 500.  In the second the
  copy and the change of mode succeed, and the checkout of \<^verbatim>\<open>main\<close> removes the
  script again: it is not there when the upload has ended (here with success).\<close>

theorem run_script_not_kept_counterexample:
  "fst (validate_source cfg0 ''/proj'' no_template_world) = None \<and>
   trace (snd (upload_vite_project cfg0 upload_req no_template_world))
     = [(FsStat ''/proj'', None), (FsStat ''/proj/package.json'', None),
        (FsStat ''/proj/run-vite-project.sh'', Some ''ENOENT: no such file or directory''),
        (FsCopyFile ''/tpl/run-vite-project.sh'' ''/proj/run-vite-project.sh'',
           Some ''ENOENT: no such file or directory'')] \<and>
   files (snd (upload_vite_project cfg0 upload_req no_template_world)) ''/proj/run-vite-project.sh''
     = None \<and>
   status (fst (upload_vite_project cfg0 upload_req no_template_world)) = 500 \<and>
   fst (validate_source cfg0 ''/proj'' tracked_script_world) = None \<and>
   take 8 (trace (snd (upload_vite_project cfg0 upload_req tracked_script_world)))
     = [(FsStat ''/proj'', None), (FsStat ''/proj/package.json'', None),
        (FsStat ''/proj/run-vite-project.sh'', Some ''ENOENT: no such file or directory''),
        (FsCopyFile ''/tpl/run-vite-project.sh'' ''/proj/run-vite-project.sh'', None),
        (FsChmod ''/proj/run-vite-project.sh'' 493, None),
        (GitCheckIsRepo ''/proj'', None), (GitGetRemotes ''/proj'', None),
        (GitCheckout ''/proj'' ''main'', None)] \<and>
   files (script_ready tracked_script_world) ''/proj/run-vite-project.sh'' = Some (File 493) \<and>
   files (snd (upload_vite_project cfg0 upload_req tracked_script_world)) ''/proj/run-vite-project.sh''
     = None \<and>
   status (fst (upload_vite_project cfg0 upload_req tracked_script_world)) = 200"
  by code_simp

theorem run_script_copied_before_git_witness:
  "upload_request cfg0 upload_req ''acct'' ''/proj'' ''app'' ''fix bug'' \<and>
   validate_source cfg0 ''/proj'' anonymous_world = (None, validated anonymous_world) \<and>
   fs_stat ''/proj/run-vite-project.sh'' (validated anonymous_world)
     = (Inl ''ENOENT: no such file or directory'', script_probed anonymous_world) \<and>
   fs_copyFile ''/tpl/run-vite-project.sh'' ''/proj/run-vite-project.sh'' (script_probed anonymous_world)
     = (Inr (), script_copied anonymous_world) \<and>
   fs_chmod ''/proj/run-vite-project.sh'' 493 (script_copied anonymous_world)
     = (Inr (), script_ready anonymous_world) \<and>
   reconcile_remote ''/proj'' ''git@github.com:acct/app.git'' (script_ready anonymous_world)
     = (Inr (), reconciled (script_ready anonymous_world)) \<and>
   git_checkout ''/proj'' ''main'' (reconciled (script_ready anonymous_world))
     = (Inr (), checked_out (reconciled (script_ready anonymous_world))) \<and>
   files (checked_out (reconciled (script_ready anonymous_world))) ''/proj/run-vite-project.sh''
     = Some (File 493) \<and>
   status (fst (upload_vite_project cfg0 upload_req anonymous_world)) = 500 \<and>
   files (snd (upload_vite_project cfg0 upload_req anonymous_world)) ''/proj/run-vite-project.sh''
     = Some (File 493) \<and>
   validate_source cfg0 ''/proj'' no_template_world = (None, validated no_template_world) \<and>
   fs_stat ''/proj/run-vite-project.sh'' (validated no_template_world)
     = (Inl ''ENOENT: no such file or directory'', script_probed no_template_world) \<and>
   fs_copyFile ''/tpl/run-vite-project.sh'' ''/proj/run-vite-project.sh'' (script_probed no_template_world)
     = (Inl ''ENOENT: no such file or directory'', script_copied no_template_world) \<and>
   fst (upload_vite_project cfg0 upload_req no_template_world)
     = Response 500 [(''message'',
         ''Failed to upload Vite project: ENOENT: no such file or directory'')] \<and>
   files (snd (upload_vite_project cfg0 upload_req no_template_world)) = files no_template_world"
proof -
  have j: "path_join cfg0 ''/proj'' ''run-vite-project.sh'' = ''/proj/run-vite-project.sh''"
    by code_simp
  have tpl: "RUN_VITE_PROJECT_SCRIPT_TEMPLATE cfg0 = ''/tpl/run-vite-project.sh''"
    by code_simp
  have b: "actualBranchName_of upload_req = ''main''"
    by code_simp
  have u: "remoteUrl_of ''acct'' ''app'' = ''git@github.com:acct/app.git''"
    by code_simp
  have h1: "upload_request cfg0 upload_req ''acct'' ''/proj'' ''app'' ''fix bug''"
    by code_simp
  have h2: "validate_source cfg0 ''/proj'' anonymous_world = (None, validated anonymous_world)"
    by (rule result_eqI) (code_simp, simp add: validated_def)
  have h3: "fs_stat (path_join cfg0 ''/proj'' ''run-vite-project.sh'') (validated anonymous_world)
     = (Inl ''ENOENT: no such file or directory'', script_probed anonymous_world)"
    unfolding j by (rule result_eqI) (code_simp, simp add: script_probed_def)
  have h4: "fs_copyFile (RUN_VITE_PROJECT_SCRIPT_TEMPLATE cfg0)
     (path_join cfg0 ''/proj'' ''run-vite-project.sh'') (script_probed anonymous_world)
     = (Inr (), script_copied anonymous_world)"
    unfolding j tpl by (rule result_eqI) (code_simp, simp add: script_copied_def)
  have h5: "fs_chmod (path_join cfg0 ''/proj'' ''run-vite-project.sh'') 493 (script_copied anonymous_world)
     = (Inr (), script_ready anonymous_world)"
    unfolding j by (rule result_eqI) (code_simp, simp add: script_ready_def)
  have h6: "reconcile_remote ''/proj'' (remoteUrl_of ''acct'' ''app'') (script_ready anonymous_world)
     = (Inr (), reconciled (script_ready anonymous_world))"
    unfolding u by (rule result_eqI) (code_simp, simp add: reconciled_def)
  have h7: "git_checkout ''/proj'' (actualBranchName_of upload_req)
       (reconciled (script_ready anonymous_world))
     = (Inr (), checked_out (reconciled (script_ready anonymous_world)))"
    unfolding b by (rule result_eqI) (code_simp, simp add: checked_out_def)
  have h8: "files (checked_out (reconciled (script_ready anonymous_world)))
       ''/proj/run-vite-project.sh'' = Some (File 493)"
    by code_simp
  have failed: "status (fst (upload_vite_project cfg0 upload_req anonymous_world)) = 500"
    by code_simp
  from run_script_copied_before_git [OF h1 h2 h3 h4 h5 h6 h7 prod.collapse [symmetric],
      THEN conjunct2, THEN conjunct2] h8
  have kept: "files (snd (upload_vite_project cfg0 upload_req anonymous_world))
      ''/proj/run-vite-project.sh'' = Some (File 493)"
    unfolding j by simp
  have n2: "validate_source cfg0 ''/proj'' no_template_world = (None, validated no_template_world)"
    by (rule result_eqI) (code_simp, simp add: validated_def)
  have n3: "fs_stat (path_join cfg0 ''/proj'' ''run-vite-project.sh'') (validated no_template_world)
     = (Inl ''ENOENT: no such file or directory'', script_probed no_template_world)"
    unfolding j by (rule result_eqI) (code_simp, simp add: script_probed_def)
  have n4: "fs_copyFile (RUN_VITE_PROJECT_SCRIPT_TEMPLATE cfg0)
     (path_join cfg0 ''/proj'' ''run-vite-project.sh'') (script_probed no_template_world)
     = (Inl ''ENOENT: no such file or directory'', script_copied no_template_world)"
    unfolding j tpl by (rule result_eqI) (code_simp, simp add: script_copied_def)
  from run_script_copied_before_git [OF h1 n2 n3 n4 prod.collapse [symmetric]
      prod.collapse [symmetric] prod.collapse [symmetric] prod.collapse [symmetric],
      THEN conjunct1]
  have n5: "fst (upload_vite_project cfg0 upload_req no_template_world)
     = Response 500 [(''message'',
         ''Failed to upload Vite project: ENOENT: no such file or directory'')]"
    and n6: "files (snd (upload_vite_project cfg0 upload_req no_template_world))
     = files no_template_world"
    by simp_all
  from h1 h2 h3 h4 h5 h6 h7 h8 failed kept n2 n3 n4 n5 n6 show ?thesis
    unfolding j tpl b u by (intro conjI)
qed

section \<open>Download: failure and cleanup\<close>

lemma bnd_extends_from:
  assumes "extends w0 (snd (m w))" and "\<And>a w. extends w (snd (k a w))"
  shows "extends w0 (snd (bnd m k w))"
proof (cases "m w")
  case (Pair r w1)
  with assms(1) have e: "extends w0 w1" by simp
  show ?thesis
  proof (cases r)
    case (Inl x)
    with Pair e show ?thesis by (simp add: bnd_def)
  next
    case (Inr a)
    with Pair have "bnd m k w = k a w1" by (simp add: bnd_def)
    with e assms(2) [of w1 a] show ?thesis by (auto intro: extends_trans)
  qed
qed

lemma download_request_unfold:
  assumes "download_request req url localPath"
  shows "download_and_prepare cfg req w =
           download_catch localPath (download_try cfg url localPath (actualBranchName_of req) w)"
  using assms
  by (simp add: download_request_def download_and_prepare_def truthy_def str_def)

lemma cleanup_extends: "extends w (cleanup p w)"
proof -
  obtain st w1 where a: "fs_stat p w = (st, w1)"
    by (cases "fs_stat p w")
  from fs_extends(1) [of w p] a have e: "extends w w1" by simp
  with a fs_extends(3) [of w1 p] show ?thesis
    by (auto simp: cleanup_def intro: extends_trans)
qed

lemma download_catch_extends: "extends (snd rw) (snd (download_catch p rw))"
  by (cases rw) (auto simp: download_catch_def cleanup_extends extends_refl split: sum.splits)

lemma look_again_extends:
  "extends w (snd ((let (needsClone, w3) =
                 (if \<not> found then (True, w)
                  else (let (st2, w3) = fs_stat p w in (\<not> stat_isDirectory st2, w3))) in
           if needsClone then git_clone url p b w3 else (Inr (), w3))))"
proof (cases found)
  case False
  then show ?thesis by (simp add: git_extends)
next
  case True
  obtain st2 w3 where a: "fs_stat p w = (st2, w3)"
    by (cases "fs_stat p w")
  from fs_extends(1) [of w p] a have e: "extends w w3" by simp
  with True a git_extends(13) [of w3 url p b] show ?thesis
    by (auto intro: extends_trans)
qed

lemma ensure_run_script_executable_extends:
  "extends w (snd (ensure_run_script_executable cfg p w))"
proof -
  obtain st w1 where a: "fs_stat (path_join cfg p ''run-vite-project.sh'') w = (st, w1)"
    by (cases "fs_stat (path_join cfg p ''run-vite-project.sh'') w")
  from fs_extends(1) [of w "path_join cfg p ''run-vite-project.sh''"] a have e: "extends w w1"
    by simp
  have "extends w1 (snd (ensure_run_script_executable cfg p w))"
    using a by (auto simp: ensure_run_script_executable_def Let_def
        intro!: bnd_extends fs_extends ret_extends)
  with e show ?thesis by (rule extends_trans)
qed

lemma after_acquire_extends:
  "extends w (snd ((bnd (npm_install p) (\<lambda>_.
     bnd (ensure_run_script_executable cfg p) (\<lambda>_. ret sent))) w))"
  by (intro bnd_extends fs_extends ensure_run_script_executable_extends ret_extends)

text \<open>The run of a download whose target is found as a directory, from the state in
  which the update attempt has ended.\<close>

lemma download_found_directory:
  assumes req: "download_request req url p"
    and mk: "fs_mkdir (path_dirname cfg p) w = (Inr (), w1)"
    and st: "fs_stat p w1 = (st, w2)" and dir: "stat_isDirectory st"
    and up: "update_existing p (convertToSshUrl url) (actualBranchName_of req) w2 = (r, w3)"
  shows "download_and_prepare cfg req w =
     download_catch p
       (bnd (bnd (\<lambda>w. case r of Inr u \<Rightarrow> (Inr (), w) | Inl pullError \<Rightarrow> fs_rm p w)
              (\<lambda>_ w2. let (needsClone, w3) =
                         (let (st2, w3) = fs_stat p w2 in (\<not> stat_isDirectory st2, w3)) in
                       if needsClone
                       then git_clone (convertToSshUrl url) p (actualBranchName_of req) w3
                       else (Inr (), w3)))
          (\<lambda>_. bnd (npm_install p) (\<lambda>_.
                 bnd (ensure_run_script_executable cfg p) (\<lambda>_.
                 ret (Response 200 [(''message'', ''Project cloned and prepared successfully!''),
                                    (''path'', p)])))) w3)"
proof -
  have "pull_or_remove p (convertToSshUrl url) (actualBranchName_of req) w2
          = (case r of Inr u \<Rightarrow> (Inr (), w3) | Inl pullError \<Rightarrow> fs_rm p w3)"
    using up by (simp add: pull_or_remove_def split: sum.splits)
  then show ?thesis
    using mk st dir
    by (simp add: download_request_unfold [OF req] download_try_def acquire_working_copy_def
        bnd_def Let_def split: sum.splits prod.splits)
qed

lemma fs_stat_absent:
  assumes "files w p = None"
  obtains e w1 where "fs_stat p w = (Inl e, w1)" and "files w1 = files w"
proof (cases "fs_stat p w")
  case (Pair r w1)
  with assms show ?thesis
    by (cases r) (auto simp: fs_stat_def invoke_def intro: that split: option.splits)
qed

lemma fs_rm_done:
  assumes "fs_rm p w = (Inr u, w1)"
  shows "files w1 = (\<lambda>q. if at_or_below p q then None else files w q)"
  using assms
  by (auto simp: fs_rm_def invoke_def split: option.splits)

text \<open>C7.  Whatever error is thrown inside the \<^verbatim>\<open>try\<close> block of the download (by
  the clone, by \<^verbatim>\<open>npm install\<close>, or by any other call that is not caught earlier),
  the handler first cleans up: it looks at the target path and, if \<^verbatim>\<open>stat\<close> finds
  it, removes it (a removal that succeeds leaves nothing at or below the path).  Then it
  answers 500 with the message of the error that was thrown: the outcome of the
  cleanup, also its failure, has no part in the response.\<close>

theorem download_failure_surfaced:
  assumes req: "download_request req url p"
    and fail: "download_try cfg url p (actualBranchName_of req) w = (Inl m, w1)"
    and run: "download_and_prepare cfg req w = (sent, w')"
  shows "sent = Response 500 [(''message'', ''Failed to download and prepare project: '' @ m)] \<and>
         ((\<exists>e. trace w' = trace w1 @ [(FsStat p, Some e)]) \<or>
          (\<exists>out. trace w' = trace w1 @ [(FsStat p, None), (FsRm p, out)] \<and>
                 (out = None \<longrightarrow> (\<forall>q. at_or_below p q \<longrightarrow> files w' q = None))))"
proof -
  from download_request_unfold [OF req] fail run
  have sent: "sent = Response 500 [(''message'', ''Failed to download and prepare project: '' @ m)]"
    and w': "w' = cleanup p w1"
    by (simp_all add: download_catch_def)
  obtain st wa where a: "fs_stat p w1 = (st, wa)"
    by (cases "fs_stat p w1")
  note ta = fs_stat_trace [OF a]
  show ?thesis
  proof (cases st)
    case (Inl e)
    with a w' have "w' = wa" by (simp add: cleanup_def stat_ok_def)
    with ta Inl sent show ?thesis
      by (simp add: outcome_def)
  next
    case (Inr n)
    obtain rr wb where b: "fs_rm p wa = (rr, wb)"
      by (cases "fs_rm p wa")
    from a b w' Inr have eq: "w' = wb" by (simp add: cleanup_def stat_ok_def)
    from ta fs_rm_trace [OF b] Inr eq
    have t: "trace w' = trace w1 @ [(FsStat p, None), (FsRm p, outcome rr)]"
      by (simp add: outcome_def)
    have "outcome rr = None \<longrightarrow> (\<forall>q. at_or_below p q \<longrightarrow> files w' q = None)"
    proof (cases rr)
      case (Inl e)
      then show ?thesis by (simp add: outcome_def)
    next
      case (Inr u)
      with b eq fs_rm_done [of p wa u wb] show ?thesis by simp
    qed
    with t sent show ?thesis by auto
  qed
qed

theorem download_failure_surfaced_witness:
  "download_request download_req ''https://github.com/acct/app.git'' ''/repos/app'' \<and>
   download_try cfg0 ''https://github.com/acct/app.git'' ''/repos/app''
       (actualBranchName_of download_req) broken_install_world
     = (Inl ''npm ERR! code E404'', tried broken_install_world) \<and>
   fst (download_and_prepare cfg0 download_req broken_install_world)
     = Response 500 [(''message'',
         ''Failed to download and prepare project: npm ERR! code E404'')] \<and>
   trace (snd (download_and_prepare cfg0 download_req broken_install_world))
     = trace (tried broken_install_world) @
         [(FsStat ''/repos/app'', None), (FsRm ''/repos/app'', Some ''EACCES: permission denied'')]"
proof -
  have b: "actualBranchName_of download_req = ''main''"
    by code_simp
  have h1: "download_request download_req ''https://github.com/acct/app.git'' ''/repos/app''"
    by code_simp
  have h2: "download_try cfg0 ''https://github.com/acct/app.git'' ''/repos/app''
       (actualBranchName_of download_req) broken_install_world
     = (Inl ''npm ERR! code E404'', tried broken_install_world)"
    unfolding b by (rule result_eqI) (code_simp, simp add: tried_def)
  have t: "trace (snd (download_and_prepare cfg0 download_req broken_install_world))
     = trace (tried broken_install_world) @
         [(FsStat ''/repos/app'', None), (FsRm ''/repos/app'', Some ''EACCES: permission denied'')]"
    by code_simp
  from download_failure_surfaced [OF h1 h2 prod.collapse [symmetric], THEN conjunct1]
  have "fst (download_and_prepare cfg0 download_req broken_install_world)
     = Response 500 [(''message'',
         ''Failed to download and prepare project: npm ERR! code E404'')]"
    by simp
  with h1 h2 t show ?thesis
    by (intro conjI)
qed

section \<open>Download: update, or remove and clone\<close>

text \<open>C2 (as amended).  The target path is found as a directory, the update (reading the
  remotes, repointing \<^verbatim>\<open>origin\<close>, pulling) fails for whatever reason, and the removal
  of the directory succeeds.  Then nothing is left at or below the target path; the
  handler looks at the path again, does not find it, and clones the resolved remote at
  the requested branch into the target path, on a file system that still has nothing
  there.  All later calls come after this clone.\<close>

theorem failed_update_removes_then_clones:
  assumes req: "download_request req url p"
    and mk: "fs_mkdir (path_dirname cfg p) w = (Inr (), w1)"
    and st: "fs_stat p w1 = (st, w2)" and dir: "stat_isDirectory st"
    and up: "update_existing p (convertToSshUrl url) (actualBranchName_of req) w2 = (Inl e, w3)"
    and rm: "fs_rm p w3 = (Inr (), w4)"
    and run: "download_and_prepare cfg req w = (sent, w')"
  shows "(\<forall>q. at_or_below p q \<longrightarrow> files w4 q = None) \<and>
         (\<exists>e2 w5 r w6.
            fs_stat p w4 = (Inl e2, w5) \<and> files w5 = files w4 \<and>
            git_clone (convertToSshUrl url) p (actualBranchName_of req) w5 = (r, w6) \<and>
            trace w6 = trace w4 @ [(FsStat p, Some e2),
                           (GitClone (convertToSshUrl url) p (actualBranchName_of req), outcome r)] \<and>
            extends w6 w')"
proof -
  define b where "b = actualBranchName_of req"
  define ssh where "ssh = convertToSshUrl url"
  from fs_rm_done [OF rm] have gone: "\<forall>q. at_or_below p q \<longrightarrow> files w4 q = None"
    by simp
  moreover have "at_or_below p p"
    by (simp add: at_or_below_def)
  ultimately have "files w4 p = None"
    by blast
  then obtain e2 w5 where look: "fs_stat p w4 = (Inl e2, w5)" and same: "files w5 = files w4"
    by (rule fs_stat_absent)
  obtain r w6 where cl: "git_clone ssh p b w5 = (r, w6)"
    by (cases "git_clone ssh p b w5")
  define k where "k = (\<lambda>_ :: unit. bnd (npm_install p) (\<lambda>_.
                 bnd (ensure_run_script_executable cfg p) (\<lambda>_.
                 ret (Response 200 [(''message'', ''Project cloned and prepared successfully!''),
                                    (''path'', p)]))))"
  from download_found_directory [OF req mk st dir up] rm look cl run
  have "(sent, w') = download_catch p (bnd (\<lambda>w. (r, w6)) k w5)"
    by (simp add: bnd_def stat_isDirectory_def k_def b_def ssh_def)
  then have w': "w' = snd (download_catch p (bnd (\<lambda>w. (r, w6)) k w5))"
    by (metis snd_conv)
  have "extends w6 (snd (bnd (\<lambda>w. (r, w6)) k w5))"
    unfolding k_def
    by (rule bnd_extends_from) (simp_all add: extends_refl after_acquire_extends)
  with download_catch_extends [of "bnd (\<lambda>w. (r, w6)) k w5" p] w' have e: "extends w6 w'"
    by (auto intro: extends_trans)
  from fs_stat_trace [OF look] git_clone_trace [OF cl]
  have "trace w6 = trace w4 @ [(FsStat p, Some e2), (GitClone ssh p b, outcome r)]"
    by (simp add: outcome_def)
  with gone look same cl e show ?thesis
    unfolding b_def ssh_def by blast
qed

text \<open>C2 as stated fails: here the update fails (there is no \<^verbatim>\<open>origin\<close> to pull
  from) and the removal of line 326 fails too.  Its error goes to the outer
  \<^verbatim>\<open>catch\<close>, whose own removal fails in the same way: nothing is cloned, the
  directory and the file in it are still there, and the caller receives status 500 with
  the error of the removal.\<close>

theorem failed_removal_no_clone_counterexample:
  "trace (snd (download_and_prepare cfg0 download_req busy_target_world))
     = [(FsMkdir ''/repos'', None), (FsStat ''/repos/app'', None),
        (GitGetRemotes ''/repos/app'', None),
        (GitPull ''/repos/app'' ''origin'' ''main'',
           Some ''fatal: origin does not appear to be a git repository''),
        (FsRm ''/repos/app'', Some ''EBUSY: resource busy or locked''),
        (FsStat ''/repos/app'', None),
        (FsRm ''/repos/app'', Some ''EBUSY: resource busy or locked'')] \<and>
   files (snd (download_and_prepare cfg0 download_req busy_target_world)) ''/repos/app''
     = Some (Dir (Some ([], []))) \<and>
   files (snd (download_and_prepare cfg0 download_req busy_target_world)) ''/repos/app/package.json''
     = Some (File 420) \<and>
   fst (download_and_prepare cfg0 download_req busy_target_world)
     = Response 500 [(''message'',
         ''Failed to download and prepare project: EBUSY: resource busy or locked'')]"
  by code_simp

theorem failed_update_removes_then_clones_witness:
  "download_request download_req ''https://github.com/acct/app.git'' ''/repos/app'' \<and>
   fs_mkdir ''/repos'' no_origin_world = (Inr (), made no_origin_world) \<and>
   fs_stat ''/repos/app'' (made no_origin_world) = (Inr (Dir (Some ([], []))), target_found no_origin_world) \<and>
   update_existing ''/repos/app'' ''git@github.com:acct/app.git'' ''main'' (target_found no_origin_world)
     = (Inl ''fatal: origin does not appear to be a git repository'', updated no_origin_world) \<and>
   fs_rm ''/repos/app'' (updated no_origin_world) = (Inr (), removed no_origin_world) \<and>
   files (updated no_origin_world) ''/repos/app/package.json'' = Some (File 420) \<and>
   files (removed no_origin_world) ''/repos/app/package.json'' = None \<and>
   trace (snd (download_and_prepare cfg0 download_req no_origin_world))
     = trace (removed no_origin_world) @
         [(FsStat ''/repos/app'', Some ''ENOENT: no such file or directory''),
        (GitClone ''git@github.com:acct/app.git'' ''/repos/app'' ''main'', None),
        (NpmInstall ''/repos/app'', None),
        (FsStat ''/repos/app/run-vite-project.sh'', Some ''ENOENT: no such file or directory''),
        (FsCopyFile ''/tpl/run-vite-project.sh'' ''/repos/app/run-vite-project.sh'', None),
        (FsChmod ''/repos/app/run-vite-project.sh'' 493, None)]"
proof -
  have b: "actualBranchName_of download_req = ''main''"
    by code_simp
  have c: "convertToSshUrl ''https://github.com/acct/app.git'' = ''git@github.com:acct/app.git''"
    by code_simp
  have d: "path_dirname cfg0 ''/repos/app'' = ''/repos''"
    by code_simp
  have h1: "download_request download_req ''https://github.com/acct/app.git'' ''/repos/app''"
    by code_simp
  have h2: "fs_mkdir (path_dirname cfg0 ''/repos/app'') no_origin_world
     = (Inr (), made no_origin_world)"
    unfolding d by (rule result_eqI) (code_simp, simp add: made_def)
  have h3: "fs_stat ''/repos/app'' (made no_origin_world)
     = (Inr (Dir (Some ([], []))), target_found no_origin_world)"
    by (rule result_eqI) (code_simp, simp add: target_found_def)
  have h4: "stat_isDirectory (Inr (Dir (Some ([], []))))"
    by (simp add: stat_isDirectory_def)
  have h5: "update_existing ''/repos/app'' (convertToSshUrl ''https://github.com/acct/app.git'')
       (actualBranchName_of download_req) (target_found no_origin_world)
     = (Inl ''fatal: origin does not appear to be a git repository'', updated no_origin_world)"
    unfolding b c by (rule result_eqI) (code_simp, simp add: updated_def)
  have h6: "fs_rm ''/repos/app'' (updated no_origin_world) = (Inr (), removed no_origin_world)"
    by (rule result_eqI) (code_simp, simp add: removed_def)
  have before: "files (updated no_origin_world) ''/repos/app/package.json'' = Some (File 420)"
    by code_simp
  have below: "at_or_below ''/repos/app'' ''/repos/app/package.json''"
    by code_simp
  have t: "trace (snd (download_and_prepare cfg0 download_req no_origin_world))
     = trace (removed no_origin_world) @
         [(FsStat ''/repos/app'', Some ''ENOENT: no such file or directory''),
        (GitClone ''git@github.com:acct/app.git'' ''/repos/app'' ''main'', None),
        (NpmInstall ''/repos/app'', None),
        (FsStat ''/repos/app/run-vite-project.sh'', Some ''ENOENT: no such file or directory''),
        (FsCopyFile ''/tpl/run-vite-project.sh'' ''/repos/app/run-vite-project.sh'', None),
        (FsChmod ''/repos/app/run-vite-project.sh'' 493, None)]"
    by code_simp
  note gone = failed_update_removes_then_clones [OF h1 h2 h3 h4 h5 h6 prod.collapse [symmetric],
      THEN conjunct1, rule_format, OF below]
  from h1 h2 h3 h5 h6 before gone t show ?thesis
    unfolding b c d by (intro conjI)
qed

section \<open>Download: the remote of an existing directory\<close>

lemma update_existing_shape:
  assumes g: "git_getRemotes d w = (rg, wg)"
    and up: "update_existing d url b w = (r, w')"
  shows "case rg of
           Inl e \<Rightarrow> trace w' = trace w @ [(GitGetRemotes d, Some e)] \<and> r = Inl e
         | Inr rs \<Rightarrow>
             (case find (\<lambda>r. fst r = ''origin'') rs of
                None \<Rightarrow> trace w' = trace w @
                    [(GitGetRemotes d, None), (GitPull d ''origin'' b, outcome r)]
              | Some currentOrigin \<Rightarrow>
                  if snd currentOrigin = url
                  then trace w' = trace w @
                      [(GitGetRemotes d, None), (GitPull d ''origin'' b, outcome r)]
                  else (\<exists>e. trace w' = trace w @ [(GitGetRemotes d, None),
                                          (GitRemoveRemote d ''origin'', Some e)] \<and> r = Inl e) \<or>
                       (\<exists>e. trace w' = trace w @ [(GitGetRemotes d, None),
                                          (GitRemoveRemote d ''origin'', None),
                                          (GitAddRemote d ''origin'' url, Some e)] \<and> r = Inl e) \<or>
                       trace w' = trace w @ [(GitGetRemotes d, None),
                                     (GitRemoveRemote d ''origin'', None),
                                     (GitAddRemote d ''origin'' url, None),
                                     (GitPull d ''origin'' b, outcome r)])"
proof (cases rg)
  case (Inl e)
  with g up git_getRemotes_trace [OF g] show ?thesis
    by (simp add: update_existing_def bnd_def outcome_def)
next
  case (Inr rs)
  note tg = git_getRemotes_trace [OF g, unfolded Inr outcome_def, simplified]
  have pull_only: "trace w' = trace w @
      [(GitGetRemotes d, None), (GitPull d ''origin'' b, outcome r)]"
    if "git_pull d ''origin'' b wg = (r, w')"
    using git_pull_trace [OF that] tg by simp
  show ?thesis
  proof (cases "find (\<lambda>r. fst r = ''origin'') rs")
    case None
    with g up Inr have "git_pull d ''origin'' b wg = (r, w')"
      by (simp add: update_existing_def bnd_def ret_def)
    with pull_only Inr None show ?thesis by simp
  next
    case (Some cur)
    show ?thesis
    proof (cases "snd cur = url")
      case True
      with g up Inr Some have "git_pull d ''origin'' b wg = (r, w')"
        by (simp add: update_existing_def bnd_def ret_def)
      with pull_only Inr Some True show ?thesis by simp
    next
      case False
      obtain r1 wa where rm: "git_removeRemote d ''origin'' wg = (r1, wa)"
        by (cases "git_removeRemote d ''origin'' wg")
      note t1 = git_removeRemote_trace [OF rm]
      show ?thesis
      proof (cases r1)
        case (Inl e)
        with g up Inr Some False rm have "r = Inl e" "w' = wa"
          by (simp_all add: update_existing_def bnd_def)
        with tg t1 Inl Inr Some False show ?thesis
          by (simp add: outcome_def)
      next
        case r1: (Inr u1)
        obtain r2 wb where ad: "git_addRemote d ''origin'' url wa = (r2, wb)"
          by (cases "git_addRemote d ''origin'' url wa")
        note t2 = git_addRemote_trace [OF ad]
        show ?thesis
        proof (cases r2)
          case (Inl e)
          with g up Inr Some False rm r1 ad have "r = Inl e" "w' = wb"
            by (simp_all add: update_existing_def bnd_def)
          with tg t1 t2 Inl r1 Inr Some False show ?thesis
            by (simp add: outcome_def)
        next
          case r2: (Inr u2)
          with g up Inr Some False rm r1 ad have "git_pull d ''origin'' b wb = (r, w')"
            by (simp add: update_existing_def bnd_def)
          from git_pull_trace [OF this] tg t1 t2 r1 r2 Inr Some False show ?thesis
            by (simp add: outcome_def)
        qed
      qed
    qed
  qed
qed

lemma found_directory_extends:
  assumes req: "download_request req url p"
    and mk: "fs_mkdir (path_dirname cfg p) w = (Inr (), w1)"
    and st: "fs_stat p w1 = (st, w2)" and dir: "stat_isDirectory st"
    and up: "update_existing p (convertToSshUrl url) (actualBranchName_of req) w2 = (r, w3)"
  shows "extends w3 (snd (download_and_prepare cfg req w))"
proof -
  have again: "extends w (snd ((let (needsClone, w3) =
                         (let (st2, w3) = fs_stat p w in (\<not> stat_isDirectory st2, w3)) in
                       if needsClone
                       then git_clone (convertToSshUrl url) p (actualBranchName_of req) w3
                       else (Inr (), w3))))" for w
    using look_again_extends [of w True p] by simp
  have "extends w3 (snd ((case r of Inr u \<Rightarrow> (Inr (), w3) | Inl pullError \<Rightarrow> fs_rm p w3)))"
    by (cases r) (simp_all add: extends_refl fs_extends)
  then have first: "extends w (snd ((\<lambda>w. case r of Inr u \<Rightarrow> (Inr (), w) | Inl pullError \<Rightarrow> fs_rm p w) w))"
    for w
    by (cases r) (simp_all add: extends_refl fs_extends)
  show ?thesis
    unfolding download_found_directory [OF req mk st dir up]
    by (rule extends_trans [OF _ download_catch_extends])
       (intro bnd_extends first again after_acquire_extends)
qed

text \<open>C5 (as amended).  When the target path is found as a directory, the download reads
  the remotes and repoints \<^verbatim>\<open>origin\<close>, by removing and adding it again, only if an
  \<^verbatim>\<open>origin\<close> exists and its fetch URL differs from the resolved endpoint; then it
  pulls.  It never initializes the directory and never adds an \<^verbatim>\<open>origin\<close> that is
  missing: when the reading of the remotes fails, the update ends there with that error,
  and when the remotes are read and none is named \<^verbatim>\<open>origin\<close>, the pull is the next
  call.  The calls listed are all the calls of the update, and every later call of the
  handler comes after them.\<close>

theorem update_only_repoints:
  assumes req: "download_request req url p"
    and mk: "fs_mkdir (path_dirname cfg p) w = (Inr (), w1)"
    and st: "fs_stat p w1 = (st, w2)" and dir: "stat_isDirectory st"
    and g: "git_getRemotes p w2 = (rg, wg)"
    and up: "update_existing p (convertToSshUrl url) (actualBranchName_of req) w2 = (r, w3)"
    and run: "download_and_prepare cfg req w = (sent, w')"
  shows "extends w3 w' \<and>
         (case rg of
            Inl e \<Rightarrow> trace w3 = trace w2 @ [(GitGetRemotes p, Some e)] \<and> r = Inl e
          | Inr rs \<Rightarrow>
              (case find (\<lambda>r. fst r = ''origin'') rs of
                 None \<Rightarrow>
                   trace w3 = trace w2 @ [(GitGetRemotes p, None),
                                  (GitPull p ''origin'' (actualBranchName_of req), outcome r)]
               | Some currentOrigin \<Rightarrow>
                   if snd currentOrigin = convertToSshUrl url
                   then trace w3 = trace w2 @ [(GitGetRemotes p, None),
                                       (GitPull p ''origin'' (actualBranchName_of req), outcome r)]
                   else (\<exists>e. trace w3 = trace w2 @ [(GitGetRemotes p, None),
                                            (GitRemoveRemote p ''origin'', Some e)] \<and> r = Inl e) \<or>
                        (\<exists>e. trace w3 = trace w2 @ [(GitGetRemotes p, None),
                                            (GitRemoveRemote p ''origin'', None),
                                            (GitAddRemote p ''origin'' (convertToSshUrl url), Some e)] \<and>
                             r = Inl e) \<or>
                        trace w3 = trace w2 @ [(GitGetRemotes p, None),
                                       (GitRemoveRemote p ''origin'', None),
                                       (GitAddRemote p ''origin'' (convertToSshUrl url), None),
                                       (GitPull p ''origin'' (actualBranchName_of req), outcome r)]))"
proof
  from found_directory_extends [OF req mk st dir up] run show "extends w3 w'"
    by simp
  from update_existing_shape [OF g up] show "case rg of
            Inl e \<Rightarrow> trace w3 = trace w2 @ [(GitGetRemotes p, Some e)] \<and> r = Inl e
          | Inr rs \<Rightarrow>
              (case find (\<lambda>r. fst r = ''origin'') rs of
                 None \<Rightarrow>
                   trace w3 = trace w2 @ [(GitGetRemotes p, None),
                                  (GitPull p ''origin'' (actualBranchName_of req), outcome r)]
               | Some currentOrigin \<Rightarrow>
                   if snd currentOrigin = convertToSshUrl url
                   then trace w3 = trace w2 @ [(GitGetRemotes p, None),
                                       (GitPull p ''origin'' (actualBranchName_of req), outcome r)]
                   else (\<exists>e. trace w3 = trace w2 @ [(GitGetRemotes p, None),
                                            (GitRemoveRemote p ''origin'', Some e)] \<and> r = Inl e) \<or>
                        (\<exists>e. trace w3 = trace w2 @ [(GitGetRemotes p, None),
                                            (GitRemoveRemote p ''origin'', None),
                                            (GitAddRemote p ''origin'' (convertToSshUrl url), Some e)] \<and>
                             r = Inl e) \<or>
                        trace w3 = trace w2 @ [(GitGetRemotes p, None),
                                       (GitRemoveRemote p ''origin'', None),
                                       (GitAddRemote p ''origin'' (convertToSshUrl url), None),
                                       (GitPull p ''origin'' (actualBranchName_of req), outcome r)])" .
qed

text \<open>C5 as stated fails.  In the first world the target is a working copy without
  \<^verbatim>\<open>origin\<close>: the download pulls without adding the remote, and the pull fails for
  that reason.  In the second the target has no metadata: nothing initializes it, and
  the reading of the remotes fails; the next call is the removal of the directory.\<close>

theorem update_without_reconcile_counterexample:
  "origins no_origin_world ''/repos/app'' = [] \<and>
   take 4 (trace (snd (download_and_prepare cfg0 download_req no_origin_world)))
     = [(FsMkdir ''/repos'', None), (FsStat ''/repos/app'', None),
        (GitGetRemotes ''/repos/app'', None),
        (GitPull ''/repos/app'' ''origin'' ''main'',
           Some ''fatal: origin does not appear to be a git repository'')] \<and>
   repo_at plain_target_world ''/repos/app'' = None \<and>
   take 4 (trace (snd (download_and_prepare cfg0 download_req plain_target_world)))
     = [(FsMkdir ''/repos'', None), (FsStat ''/repos/app'', None),
        (GitGetRemotes ''/repos/app'', Some not_a_repository),
        (FsRm ''/repos/app'', None)]"
  by code_simp

theorem update_only_repoints_witness:
  "download_request download_req ''https://github.com/acct/app.git'' ''/repos/app'' \<and>
   fs_mkdir ''/repos'' stale_target_world = (Inr (), made stale_target_world) \<and>
   fs_stat ''/repos/app'' (made stale_target_world)
     = (Inr (Dir (Some ([(''origin'', ''https://github.com/acct/app.git'')], []))),
        target_found stale_target_world) \<and>
   git_getRemotes ''/repos/app'' (target_found stale_target_world)
     = (Inr [(''origin'', ''https://github.com/acct/app.git'')], listed stale_target_world) \<and>
   update_existing ''/repos/app'' ''git@github.com:acct/app.git'' ''main'' (target_found stale_target_world)
     = (Inr (), updated stale_target_world) \<and>
   trace (updated stale_target_world)
     = trace (target_found stale_target_world) @ [(GitGetRemotes ''/repos/app'', None),
        (GitRemoveRemote ''/repos/app'' ''origin'', None),
        (GitAddRemote ''/repos/app'' ''origin'' ''git@github.com:acct/app.git'', None),
        (GitPull ''/repos/app'' ''origin'' ''main'', None)]"
proof -
  have b: "actualBranchName_of download_req = ''main''"
    by code_simp
  have c: "convertToSshUrl ''https://github.com/acct/app.git'' = ''git@github.com:acct/app.git''"
    by code_simp
  have d: "path_dirname cfg0 ''/repos/app'' = ''/repos''"
    by code_simp
  have h1: "download_request download_req ''https://github.com/acct/app.git'' ''/repos/app''"
    by code_simp
  have h2: "fs_mkdir (path_dirname cfg0 ''/repos/app'') stale_target_world
     = (Inr (), made stale_target_world)"
    unfolding d by (rule result_eqI) (code_simp, simp add: made_def)
  have h3: "fs_stat ''/repos/app'' (made stale_target_world)
     = (Inr (Dir (Some ([(''origin'', ''https://github.com/acct/app.git'')], []))),
        target_found stale_target_world)"
    by (rule result_eqI) (code_simp, simp add: target_found_def)
  have h4: "stat_isDirectory (Inr (Dir (Some ([(''origin'', ''https://github.com/acct/app.git'')], []))))"
    by (simp add: stat_isDirectory_def)
  have h5: "git_getRemotes ''/repos/app'' (target_found stale_target_world)
     = (Inr [(''origin'', ''https://github.com/acct/app.git'')], listed stale_target_world)"
    by (rule result_eqI) (code_simp, simp add: listed_def)
  have h6: "update_existing ''/repos/app'' (convertToSshUrl ''https://github.com/acct/app.git'')
       (actualBranchName_of download_req) (target_found stale_target_world)
     = (Inr (), updated stale_target_world)"
    unfolding b c by (rule result_eqI) (code_simp, simp add: updated_def)
  from update_only_repoints [OF h1 h2 h3 h4 h5 h6 prod.collapse [symmetric], THEN conjunct2]
  have "trace (updated stale_target_world)
     = trace (target_found stale_target_world) @ [(GitGetRemotes ''/repos/app'', None),
        (GitRemoveRemote ''/repos/app'' ''origin'', None),
        (GitAddRemote ''/repos/app'' ''origin'' ''git@github.com:acct/app.git'', None),
        (GitPull ''/repos/app'' ''origin'' ''main'', None)]"
    unfolding b c by (simp add: outcome_def)
  with h1 h2 h3 h5 h6 show ?thesis
    unfolding b c d by (intro conjI)
qed

end
